theory Spec2Isabelle
  imports Main
begin

section \<open>Python values, exceptions and effects\<close>

text \<open>
  The decorators of \<^verbatim>\<open>ripozo/decorators.py\<close> wrap callables of the shape
  \<^verbatim>\<open>(cls, request, *args, **kwargs)\<close>. An exception is a value of \<open>pyerror\<close>; a
  call that may raise returns either the exception or its result, together with the
  world it leaves behind (a raise keeps every mutation made before it).
\<close>

datatype pyerror =
    TypeError string
  | AttributeError string
  | IndexError string
  | ValidationException string
  | Raised string

text \<open>
  Class objects: the classes that \<^verbatim>\<open>ripozo/resources/restmixins.py\<close> declares, the
  base class \<^verbatim>\<open>ResourceBase\<close> they extend, and the classes of a user of the module.
\<close>

datatype cname =
    ResourceBase
  | Create
  | Retrieve
  | RetrieveList
  | RetrieveRetrieveList
  | Update
  | Delete
  | RetrieveUpdate
  | RetrieveUpdateDelete
  | CreateRetrieve
  | CreateRetrieveUpdate
  | CRUD
  | CRUDL
  | UserClass string

text \<open>\<^verbatim>\<open>cls.__name__\<close>\<close>

fun class_name :: "cname \<Rightarrow> string" where
  "class_name ResourceBase = ''ResourceBase''"
| "class_name Create = ''Create''"
| "class_name Retrieve = ''Retrieve''"
| "class_name RetrieveList = ''RetrieveList''"
| "class_name RetrieveRetrieveList = ''RetrieveRetrieveList''"
| "class_name Update = ''Update''"
| "class_name Delete = ''Delete''"
| "class_name RetrieveUpdate = ''RetrieveUpdate''"
| "class_name RetrieveUpdateDelete = ''RetrieveUpdateDelete''"
| "class_name CreateRetrieve = ''CreateRetrieve''"
| "class_name CreateRetrieveUpdate = ''CreateRetrieveUpdate''"
| "class_name CRUD = ''CRUD''"
| "class_name CRUDL = ''CRUDL''"
| "class_name (UserClass n) = n"

text \<open>
  The values that travel as positional and keyword arguments. \<open>ClassRef\<close> is a
  class object (the only values for which \<^verbatim>\<open>isinstance(v, type)\<close> holds),
  \<open>InstanceRef c\<close> an instance of the class \<open>c\<close>, \<open>RequestRef\<close> the request
  container of the call.
\<close>

datatype pyval =
    ClassRef cname
  | InstanceRef cname
  | RequestRef
  | NoneVal
  | BoolVal bool
  | StrVal string
  | TupleVal "pyval list"
  | ListVal "pyval list"

type_synonym kwargs = "(string \<times> pyval) list"

type_synonym field = string

text \<open>
  The calls a wrapper makes are recorded in the order they happen: the index of a
  processor is its position in \<^verbatim>\<open>cls.preprocessors\<close> or \<^verbatim>\<open>cls.postprocessors\<close>.
\<close>

datatype 'r event =
    PreprocessorCalled nat cname string pyval "pyval list" kwargs
  | FunctionCalled string cname pyval "pyval list" kwargs
  | PostprocessorCalled nat cname string pyval 'r "pyval list" kwargs
  | RequestValidate "field list" bool
  | RequestTranslate "field list"

record ('q, 'r) world =
  request :: 'q
  trace :: "'r event list"

text \<open>
  The manager is an external collaborator; the decorators and the link builders read
  these attributes of it.
\<close>

record manager =
  mgr_fields :: "string list"
  field_validators :: "field list"
  pagination_pk_query_arg :: string
  pagination_count_query_arg :: string

text \<open>
  A processor receives the class, the name of the action, the request (the reference
  and the state of the container, which it may mutate), and the arguments of the call;
  what it returns is dropped, what it raises is not.
\<close>

type_synonym 'q preprocessor =
  "cname \<Rightarrow> string \<Rightarrow> pyval \<Rightarrow> 'q \<Rightarrow> pyval list \<Rightarrow> kwargs \<Rightarrow> pyerror option \<times> 'q"

type_synonym ('q, 'r) postprocessor =
  "cname \<Rightarrow> string \<Rightarrow> pyval \<Rightarrow> 'q \<Rightarrow> 'r \<Rightarrow> pyval list \<Rightarrow> kwargs \<Rightarrow> pyerror option \<times> 'q"

record ('q, 'r) resource_class =
  cls_ref :: cname
  cls_manager :: "manager option"
  preprocessors :: "'q preprocessor list"
  postprocessors :: "('q, 'r) postprocessor list"

type_synonym ('q, 'r, 'z) callable =
  "('q, 'r) resource_class \<Rightarrow> pyval \<Rightarrow> pyval list \<Rightarrow> kwargs \<Rightarrow> ('q, 'r, 'z) world_scheme
     \<Rightarrow> (pyerror + 'r) \<times> ('q, 'r, 'z) world_scheme"

record ('q, 'r, 'z) pyfunction =
  fn_name :: string
  fn_call :: "('q, 'r, 'z) callable"

text \<open>
  An undecorated action body \<^verbatim>\<open>def f(cls, request, *args, **kwargs)\<close>: it reads and
  mutates the request container and returns a resource or raises.
\<close>

definition plain_function ::
  "string
     \<Rightarrow> (('q, 'r) resource_class \<Rightarrow> pyval \<Rightarrow> 'q \<Rightarrow> pyval list \<Rightarrow> kwargs \<Rightarrow> (pyerror + 'r) \<times> 'q)
     \<Rightarrow> ('q, 'r, 'z) pyfunction" where
  "plain_function nm body =
     \<lparr> fn_name = nm,
       fn_call = (\<lambda>cls req args kw w.
         (let w1 = w\<lparr>trace := trace w @ [FunctionCalled nm (cls_ref cls) req args kw]\<rparr>
          in case body cls req (request w1) args kw of
               (res, q) \<Rightarrow> (res, w1\<lparr>request := q\<rparr>))) \<rparr>"

section \<open>apimethod: the pre/post-processor chain\<close>

text \<open>
  \<^verbatim>\<open>for proc in cls.preprocessors: proc(cls, f.__name__, request, *args, **kwargs)\<close>
\<close>

fun run_preprocessors ::
  "nat \<Rightarrow> 'q preprocessor list \<Rightarrow> cname \<Rightarrow> string \<Rightarrow> pyval \<Rightarrow> pyval list \<Rightarrow> kwargs
     \<Rightarrow> ('q, 'r, 'z) world_scheme \<Rightarrow> pyerror option \<times> ('q, 'r, 'z) world_scheme" where
  "run_preprocessors i [] cls nm req args kw w = (None, w)"
| "run_preprocessors i (proc # procs) cls nm req args kw w =
     (let w1 = w\<lparr>trace := trace w @ [PreprocessorCalled i cls nm req args kw]\<rparr>
      in case proc cls nm req (request w1) args kw of
           (Some e, q) \<Rightarrow> (Some e, w1\<lparr>request := q\<rparr>)
         | (None, q) \<Rightarrow>
             run_preprocessors (Suc i) procs cls nm req args kw (w1\<lparr>request := q\<rparr>))"

text \<open>
  \<^verbatim>\<open>for proc in cls.postprocessors: proc(cls, f.__name__, request, resource, *args, **kwargs)\<close>
\<close>

fun run_postprocessors ::
  "nat \<Rightarrow> ('q, 'r) postprocessor list \<Rightarrow> cname \<Rightarrow> string \<Rightarrow> pyval \<Rightarrow> 'r \<Rightarrow> pyval list \<Rightarrow> kwargs
     \<Rightarrow> ('q, 'r, 'z) world_scheme \<Rightarrow> pyerror option \<times> ('q, 'r, 'z) world_scheme" where
  "run_postprocessors i [] cls nm req resource args kw w = (None, w)"
| "run_postprocessors i (proc # procs) cls nm req resource args kw w =
     (let w1 = w\<lparr>trace := trace w @ [PostprocessorCalled i cls nm req resource args kw]\<rparr>
      in case proc cls nm req (request w1) resource args kw of
           (Some e, q) \<Rightarrow> (Some e, w1\<lparr>request := q\<rparr>)
         | (None, q) \<Rightarrow>
             run_postprocessors (Suc i) procs cls nm req resource args kw
               (w1\<lparr>request := q\<rparr>))"

text \<open>The closure \<^verbatim>\<open>wrapped(cls, request, *args, **kwargs)\<close> of \<^verbatim>\<open>apimethod.__call__\<close>.\<close>

definition wrapped :: "('q, 'r, 'z) pyfunction \<Rightarrow> ('q, 'r, 'z) callable" where
  "wrapped f cls req args kw w =
     (case run_preprocessors 0 (preprocessors cls) (cls_ref cls) (fn_name f) req args kw w of
        (Some e, w1) \<Rightarrow> (Inl e, w1)
      | (None, w1) \<Rightarrow>
          (case fn_call f cls req args kw w1 of
             (Inl e, w2) \<Rightarrow> (Inl e, w2)
           | (Inr resource, w2) \<Rightarrow>
               (case run_postprocessors 0 (postprocessors cls) (cls_ref cls) (fn_name f) req
                       resource args kw w2 of
                  (Some e, w3) \<Rightarrow> (Inl e, w3)
                | (None, w3) \<Rightarrow> (Inr resource, w3))))"

text \<open>
  What \<^verbatim>\<open>wrapped\<close> holds as \<^verbatim>\<open>f\<close> when \<^verbatim>\<open>apimethod\<close> is applied to the result
  of \<^verbatim>\<open>apimethod\<close>: an \<^verbatim>\<open>_apiclassmethod\<close> instance. Its \<^verbatim>\<open>__name__\<close> is the
  property that returns \<^verbatim>\<open>_name\<close>, and the class defines no \<^verbatim>\<open>__call__\<close>, so
  \<^verbatim>\<open>f(cls, request, *args, **kwargs)\<close> raises \<^verbatim>\<open>TypeError\<close>.
\<close>

definition apiclassmethod_callee :: "('q, 'r, 'z) pyfunction" where
  "apiclassmethod_callee =
     \<lparr> fn_name = ''_apiclassmethod'',
       fn_call = (\<lambda>cls req args kw w.
         (Inl (TypeError ''_apiclassmethod object is not callable''), w)) \<rparr>"

text \<open>The events a complete run of either chain leaves, from processor \<open>i\<close> on.\<close>

definition pre_events ::
  "nat \<Rightarrow> nat \<Rightarrow> cname \<Rightarrow> string \<Rightarrow> pyval \<Rightarrow> pyval list \<Rightarrow> kwargs \<Rightarrow> 'r event list" where
  "pre_events i k cls nm req args kw =
     map (\<lambda>j. PreprocessorCalled j cls nm req args kw) [i ..< i + k]"

definition post_events ::
  "nat \<Rightarrow> nat \<Rightarrow> cname \<Rightarrow> string \<Rightarrow> pyval \<Rightarrow> 'r \<Rightarrow> pyval list \<Rightarrow> kwargs \<Rightarrow> 'r event list" where
  "post_events i k cls nm req resource args kw =
     map (\<lambda>j. PostprocessorCalled j cls nm req resource args kw) [i ..< i + k]"

section \<open>validate and translate\<close>

text \<open>
  The request container is an external collaborator: \<^verbatim>\<open>request.validate(fields,
  skip_required=...)\<close> and \<^verbatim>\<open>request.translate(fields)\<close> mutate the container in
  place or raise.
\<close>

record 'q request_container =
  rc_validate :: "field list \<Rightarrow> bool \<Rightarrow> 'q \<Rightarrow> pyerror option \<times> 'q"
  rc_translate :: "field list \<Rightarrow> 'q \<Rightarrow> pyerror option \<times> 'q"

text \<open>
  The attributes of a \<^verbatim>\<open>validate\<close> instance (\<^verbatim>\<open>self\<close>) and of the function
  \<^verbatim>\<open>action\<close> it returns. \<^verbatim>\<open>self.original_fields\<close> does not exist before
  \<^verbatim>\<open>__call__\<close> has run.
\<close>

record validate_self =
  v_fields :: "field list"
  v_manager_field_validators :: bool
  v_skip_required :: bool
  v_original_fields :: "field list option"

record action_attrs =
  a_fields :: "field list"
  a_original_fields :: "field list"
  a_manager_field_validators :: bool

record ('q, 'r) vworld = "('q, 'r) world" +
  vself :: validate_self
  vaction :: action_attrs

text \<open>\<^verbatim>\<open>validate.__init__(self, fields=None, manager_field_validators=False, skip_required=False)\<close>\<close>

definition validate_init :: "field list option \<Rightarrow> bool \<Rightarrow> bool \<Rightarrow> validate_self" where
  "validate_init fields_arg manager_field_validators skip_required =
     \<lparr> v_fields = (case fields_arg of None \<Rightarrow> [] | Some fs \<Rightarrow> fs),
       v_manager_field_validators = manager_field_validators,
       v_skip_required = skip_required,
       v_original_fields = None \<rparr>"

text \<open>
  The attribute assignments of \<^verbatim>\<open>validate.__call__\<close>, after the closure is built:
  the instance and the attributes of the returned \<^verbatim>\<open>action\<close>.
\<close>

definition validate_call :: "validate_self \<Rightarrow> validate_self \<times> action_attrs" where
  "validate_call self =
     (let self1 = self\<lparr>v_original_fields := Some (v_fields self)\<rparr>
      in (self1,
          \<lparr> a_fields = v_fields self,
            a_original_fields = v_fields self,
            a_manager_field_validators = v_manager_field_validators self \<rparr>))"

text \<open>
  \<^verbatim>\<open>request.validate(flds, skip_required=skip)\<close> and \<^verbatim>\<open>request.translate(flds)\<close>:
  only the request container has these methods.
\<close>

definition request_validate ::
  "'q request_container \<Rightarrow> pyval \<Rightarrow> field list \<Rightarrow> bool \<Rightarrow> ('q, 'r, 'z) world_scheme
     \<Rightarrow> pyerror option \<times> ('q, 'r, 'z) world_scheme" where
  "request_validate rc req flds skip w =
     (if req = RequestRef then
        (let w1 = w\<lparr>trace := trace w @ [RequestValidate flds skip]\<rparr>
         in case rc_validate rc flds skip (request w1) of (r, q) \<Rightarrow> (r, w1\<lparr>request := q\<rparr>))
      else (Some (AttributeError ''validate''), w))"

definition request_translate ::
  "'q request_container \<Rightarrow> pyval \<Rightarrow> field list \<Rightarrow> ('q, 'r, 'z) world_scheme
     \<Rightarrow> pyerror option \<times> ('q, 'r, 'z) world_scheme" where
  "request_translate rc req flds w =
     (if req = RequestRef then
        (let w1 = w\<lparr>trace := trace w @ [RequestTranslate flds]\<rparr>
         in case rc_translate rc flds (request w1) of (r, q) \<Rightarrow> (r, w1\<lparr>request := q\<rparr>))
      else (Some (AttributeError ''translate''), w))"

text \<open>
  The closure \<^verbatim>\<open>action(cls, request, *args, **kwargs)\<close> of \<^verbatim>\<open>validate.__call__\<close>.
  With \<^verbatim>\<open>manager_field_validators\<close> set it first stores
  \<^verbatim>\<open>self.original_fields + cls.manager.field_validators\<close> in \<^verbatim>\<open>self.fields\<close>;
  reading \<^verbatim>\<open>field_validators\<close> of a manager that is \<^verbatim>\<open>None\<close> raises.
\<close>

definition action ::
  "'q request_container \<Rightarrow> ('q, 'r, 'z vworld_ext) pyfunction
     \<Rightarrow> ('q, 'r, 'z vworld_ext) callable" where
  "action rc f cls req args kw w =
     (if v_manager_field_validators (vself w) then
        (case v_original_fields (vself w) of
           None \<Rightarrow> (Inl (AttributeError ''original_fields''), w)
         | Some ofs \<Rightarrow>
             (case cls_manager cls of
                None \<Rightarrow> (Inl (AttributeError ''field_validators''), w)
              | Some m \<Rightarrow>
                  (let w1 = w\<lparr>vself := (vself w)\<lparr>v_fields := ofs @ field_validators m\<rparr>\<rparr>
                   in case request_validate rc req
                             (a_original_fields (vaction w1) @ field_validators m)
                             (v_skip_required (vself w1)) w1 of
                        (Some e, w2) \<Rightarrow> (Inl e, w2)
                      | (None, w2) \<Rightarrow> fn_call f cls req args kw w2)))
      else
        (case request_validate rc req (a_original_fields (vaction w)) (v_skip_required (vself w)) w of
           (Some e, w2) \<Rightarrow> (Inl e, w2)
         | (None, w2) \<Rightarrow> fn_call f cls req args kw w2))"

text \<open>
  The variant the specification describes: \<^verbatim>\<open>action\<close> without the assignment to
  \<^verbatim>\<open>self.fields\<close>.
\<close>

definition action_without_assignment ::
  "'q request_container \<Rightarrow> ('q, 'r, 'z vworld_ext) pyfunction
     \<Rightarrow> ('q, 'r, 'z vworld_ext) callable" where
  "action_without_assignment rc f cls req args kw w =
     (if v_manager_field_validators (vself w) then
        (case cls_manager cls of
           None \<Rightarrow> (Inl (AttributeError ''field_validators''), w)
         | Some m \<Rightarrow>
             (case request_validate rc req
                     (a_original_fields (vaction w) @ field_validators m)
                     (v_skip_required (vself w)) w of
                (Some e, w2) \<Rightarrow> (Inl e, w2)
              | (None, w2) \<Rightarrow> fn_call f cls req args kw w2))
      else
        (case request_validate rc req (a_original_fields (vaction w)) (v_skip_required (vself w)) w of
           (Some e, w2) \<Rightarrow> (Inl e, w2)
         | (None, w2) \<Rightarrow> fn_call f cls req args kw w2))"

text \<open>
  A sequence of calls of one wrapper: each call comes with its class, the state of its
  own request container, and its arguments.
\<close>

fun run_calls ::
  "('q, 'r, 'z) callable
     \<Rightarrow> (('q, 'r) resource_class \<times> pyval \<times> 'q \<times> pyval list \<times> kwargs) list
     \<Rightarrow> ('q, 'r, 'z) world_scheme \<Rightarrow> (pyerror + 'r) list \<times> ('q, 'r, 'z) world_scheme" where
  "run_calls act [] w = ([], w)"
| "run_calls act ((cls, req, q, args, kw) # cs) w =
     (case act cls req args kw (w\<lparr>request := q\<rparr>) of
        (r, w1) \<Rightarrow> (case run_calls act cs w1 of (rs, w2) \<Rightarrow> (r # rs, w2)))"

text \<open>
  The world right after decoration time: \<^verbatim>\<open>validate(fields, manager_field_validators,
  skip_required)\<close> has been applied to a function.
\<close>

definition decorated ::
  "field list option \<Rightarrow> bool \<Rightarrow> bool \<Rightarrow> ('q, 'r, 'z) vworld_scheme \<Rightarrow> ('q, 'r, 'z) vworld_scheme" where
  "decorated fields_arg mfv skip w =
     (case validate_call (validate_init fields_arg mfv skip) of
        (self, act) \<Rightarrow> w\<lparr>vself := self, vaction := act\<rparr>)"

section \<open>Classes, method resolution order and attribute lookup\<close>

text \<open>
  A class statement \<^verbatim>\<open>class C(B1, ..., Bn): body\<close> computes the method resolution
  order of \<open>C\<close> by C3 linearisation, \<^verbatim>\<open>[C] + merge(mro(B1), ..., mro(Bn), [B1, ..., Bn])\<close>,
  and raises \<^verbatim>\<open>TypeError\<close> when no consistent order exists. An attribute of a
  class is the entry of the first class of the order whose own body declares it.
\<close>

record 'a pyclass =
  c_mro :: "cname list"
  c_dict :: "(string \<times> 'a) list"

type_synonym 'a class_table = "(cname \<times> 'a pyclass) list"

text \<open>The first head that is in the tail of no sequence.\<close>

fun find_candidate :: "cname list list \<Rightarrow> cname list list \<Rightarrow> cname option" where
  "find_candidate [] seqs = None"
| "find_candidate ([] # ss) seqs = find_candidate ss seqs"
| "find_candidate ((c # cs) # ss) seqs =
     (if list_ex (\<lambda>t. c \<in> set (tl t)) seqs then find_candidate ss seqs else Some c)"

definition drop_head :: "cname \<Rightarrow> cname list \<Rightarrow> cname list" where
  "drop_head c s = (case s of [] \<Rightarrow> [] | x # xs \<Rightarrow> if x = c then xs else s)"

lemma find_candidate_head:
  "find_candidate ss seqs = Some c \<Longrightarrow> \<exists>s \<in> set ss. \<exists>cs. s = c # cs"
  by (induction ss seqs rule: find_candidate.induct) (auto split: if_splits)

lemma drop_head_length_le: "length (drop_head c s) \<le> length s"
  by (simp add: drop_head_def split: list.splits)

lemma drop_head_sum_less:
  "\<exists>s \<in> set ss. \<exists>cs. s = c # cs \<Longrightarrow>
     sum_list (map length (map (drop_head c) ss)) < sum_list (map length ss)"
proof (induction ss)
  case Nil
  then show ?case by simp
next
  case (Cons s ss)
  have le: "sum_list (map length (map (drop_head c) ss)) \<le> sum_list (map length ss)"
    by (induction ss) (simp_all add: add_le_mono drop_head_length_le)
  show ?case
  proof (cases "\<exists>cs. s = c # cs")
    case True
    then have "length (drop_head c s) < length s" by (auto simp: drop_head_def)
    with le show ?thesis by simp
  next
    case False
    with Cons.prems have "\<exists>s \<in> set ss. \<exists>cs. s = c # cs" by auto
    from Cons.IH [OF this] drop_head_length_le [of c s] show ?thesis by simp
  qed
qed

function c3_merge :: "cname list list \<Rightarrow> cname list option" where
  "c3_merge seqs =
     (if filter (\<lambda>s. s \<noteq> []) seqs = [] then Some []
      else (case find_candidate (filter (\<lambda>s. s \<noteq> []) seqs) (filter (\<lambda>s. s \<noteq> []) seqs) of
              None \<Rightarrow> None
            | Some c \<Rightarrow>
                (case c3_merge (map (drop_head c) (filter (\<lambda>s. s \<noteq> []) seqs)) of
                   None \<Rightarrow> None
                 | Some r \<Rightarrow> Some (c # r))))"
  by pat_completeness auto
termination
proof (relation "measure (\<lambda>seqs. sum_list (map length seqs))")
  show "wf (measure (\<lambda>seqs. sum_list (map length seqs)))" by simp
next
  fix seqs :: "cname list list" and c
  assume "find_candidate (filter (\<lambda>s. s \<noteq> []) seqs) (filter (\<lambda>s. s \<noteq> []) seqs) = Some c"
  from drop_head_sum_less [OF find_candidate_head [OF this]]
  have "sum_list (map length (map (drop_head c) (filter (\<lambda>s. s \<noteq> []) seqs)))
          < sum_list (map length (filter (\<lambda>s. s \<noteq> []) seqs))" .
  also have "\<dots> \<le> sum_list (map length seqs)"
    by (induction seqs) simp_all
  finally show "(map (drop_head c) (filter (\<lambda>s. s \<noteq> []) seqs), seqs)
                  \<in> measure (\<lambda>seqs. sum_list (map length seqs))" by simp
qed

declare c3_merge.simps [simp del]

definition mro_of :: "'a class_table \<Rightarrow> cname \<Rightarrow> cname list option" where
  "mro_of tbl c = map_option c_mro (map_of tbl c)"

text \<open>The class statement: the table with the new class, or the error it raises.\<close>

definition define_class ::
  "'a class_table \<Rightarrow> cname \<Rightarrow> cname list \<Rightarrow> (string \<times> 'a) list \<Rightarrow> pyerror + 'a class_table" where
  "define_class tbl c bases body =
     (case those (map (mro_of tbl) bases) of
        None \<Rightarrow> Inl (Raised ''NameError'')
      | Some mros \<Rightarrow>
          (case c3_merge (mros @ [bases]) of
             None \<Rightarrow> Inl (TypeError ''Cannot create a consistent method resolution order (MRO)'')
           | Some l \<Rightarrow> Inr ((c, \<lparr> c_mro = c # l, c_dict = body \<rparr>) # tbl)))"

fun define_classes ::
  "(cname \<times> cname list \<times> (string \<times> 'a) list) list \<Rightarrow> 'a class_table
     \<Rightarrow> pyerror + 'a class_table" where
  "define_classes [] tbl = Inr tbl"
| "define_classes ((c, bases, body) # ds) tbl =
     (case define_class tbl c bases body of
        Inl e \<Rightarrow> Inl e
      | Inr tbl1 \<Rightarrow> define_classes ds tbl1)"

text \<open>Attribute lookup along a method resolution order.\<close>

fun mro_lookup :: "'a class_table \<Rightarrow> cname list \<Rightarrow> string \<Rightarrow> (cname \<times> 'a) option" where
  "mro_lookup tbl [] nm = None"
| "mro_lookup tbl (k # ks) nm =
     (case map_of tbl k of
        None \<Rightarrow> mro_lookup tbl ks nm
      | Some cb \<Rightarrow>
          (case map_of (c_dict cb) nm of
             None \<Rightarrow> mro_lookup tbl ks nm
           | Some v \<Rightarrow> Some (k, v)))"

definition class_attr :: "'a class_table \<Rightarrow> cname \<Rightarrow> string \<Rightarrow> pyerror + 'a" where
  "class_attr tbl c nm =
     (case mro_of tbl c of
        None \<Rightarrow> Inl (Raised ''NameError'')
      | Some mro \<Rightarrow>
          (case mro_lookup tbl mro nm of
             None \<Rightarrow> Inl (AttributeError nm)
           | Some (k, v) \<Rightarrow> Inr v))"

section \<open>The CRUD+L mixins and their links\<close>

text \<open>
  A relationship is opaque to the mixins: they construct it from a name and keyword
  metadata and concatenate tuples of them.
\<close>

datatype relationship = Relationship string kwargs

text \<open>
  What the class bodies declare besides their actions: the flag \<^verbatim>\<open>__abstract__\<close>, the
  data attributes \<^verbatim>\<open>_links\<close> and \<^verbatim>\<open>manager\<close>, the \<^verbatim>\<open>links\<close> class properties of
  \<^verbatim>\<open>Create\<close>, \<^verbatim>\<open>RetrieveList\<close> and \<^verbatim>\<open>CRUDL\<close>, the \<^verbatim>\<open>relationships\<close> class
  property of \<^verbatim>\<open>RetrieveRetrieveList\<close>, and the static methods \<^verbatim>\<open>get_base_links\<close>.
\<close>

datatype links_impl = Create_links | RetrieveList_links | CRUDL_links

datatype base_links_impl = Create_get_base_links | RetrieveList_get_base_links

datatype class_member =
    AbstractFlag bool
  | LinksDecl "relationship list option"
  | ManagerDecl "manager option"
  | ClassProperty links_impl
  | RelationshipsProperty
  | StaticMethod base_links_impl

text \<open>\<^verbatim>\<open>cls._links or tuple()\<close>\<close>

definition declared_links :: "class_member class_table \<Rightarrow> cname \<Rightarrow> pyerror + relationship list" where
  "declared_links tbl cls =
     (case class_attr tbl cls ''_links'' of
        Inl e \<Rightarrow> Inl e
      | Inr (LinksDecl None) \<Rightarrow> Inr []
      | Inr (LinksDecl (Some l)) \<Rightarrow> Inr l
      | Inr _ \<Rightarrow> Inl (TypeError ''_links is not a tuple''))"

text \<open>The bodies of \<^verbatim>\<open>Create.get_base_links\<close> and \<^verbatim>\<open>RetrieveList.get_base_links\<close>.\<close>

fun call_get_base_links ::
  "base_links_impl \<Rightarrow> class_member class_table \<Rightarrow> cname \<Rightarrow> pyerror + relationship list" where
  "call_get_base_links Create_get_base_links tbl actual_class =
     Inr [Relationship ''created''
            [(''relation'', StrVal (class_name actual_class)), (''embedded'', BoolVal True)]]"
| "call_get_base_links RetrieveList_get_base_links tbl actual_class =
     (case class_attr tbl actual_class ''manager'' of
        Inl e \<Rightarrow> Inl e
      | Inr (ManagerDecl mgr) \<Rightarrow>
          (let fields =
                (case mgr of
                   Some m \<Rightarrow>
                     TupleVal (map StrVal (mgr_fields m)
                               @ [StrVal (pagination_pk_query_arg m),
                                  StrVal (pagination_count_query_arg m)])
                 | None \<Rightarrow> ListVal [])
           in Inr [Relationship ''next''
                     [(''relation'', StrVal (class_name actual_class)),
                      (''query_args'', fields), (''no_pks'', BoolVal True)],
                   Relationship ''previous''
                     [(''relation'', StrVal (class_name actual_class)),
                      (''query_args'', fields), (''no_pks'', BoolVal True)]])
      | Inr _ \<Rightarrow> Inl (AttributeError ''fields''))"

text \<open>\<^verbatim>\<open>owner.get_base_links(actual_class)\<close>: the static method is looked up on \<open>owner\<close>.\<close>

definition get_base_links ::
  "class_member class_table \<Rightarrow> cname \<Rightarrow> cname \<Rightarrow> pyerror + relationship list" where
  "get_base_links tbl owner actual_class =
     (case class_attr tbl owner ''get_base_links'' of
        Inl e \<Rightarrow> Inl e
      | Inr (StaticMethod impl) \<Rightarrow> call_get_base_links impl tbl actual_class
      | Inr _ \<Rightarrow> Inl (TypeError ''get_base_links is not callable''))"

text \<open>
  The bodies of the \<^verbatim>\<open>links\<close> functions of \<^verbatim>\<open>Create\<close>, \<^verbatim>\<open>RetrieveList\<close> and
  \<^verbatim>\<open>CRUDL\<close>, as functions of their parameter \<^verbatim>\<open>cls\<close>.
\<close>

fun call_links :: "links_impl \<Rightarrow> class_member class_table \<Rightarrow> cname \<Rightarrow> pyerror + relationship list" where
  "call_links Create_links tbl cls =
     (case declared_links tbl cls of
        Inl e \<Rightarrow> Inl e
      | Inr links0 \<Rightarrow>
          (case get_base_links tbl Create cls of
             Inl e \<Rightarrow> Inl e
           | Inr b \<Rightarrow> Inr (links0 @ b)))"
| "call_links RetrieveList_links tbl cls =
     (case declared_links tbl cls of
        Inl e \<Rightarrow> Inl e
      | Inr links0 \<Rightarrow>
          (case get_base_links tbl cls cls of
             Inl e \<Rightarrow> Inl e
           | Inr b \<Rightarrow> Inr (links0 @ b)))"
| "call_links CRUDL_links tbl cls =
     (case declared_links tbl cls of
        Inl e \<Rightarrow> Inl e
      | Inr links0 \<Rightarrow>
          (case get_base_links tbl Create cls of
             Inl e \<Rightarrow> Inl e
           | Inr b1 \<Rightarrow>
               (case get_base_links tbl RetrieveRetrieveList cls of
                  Inl e \<Rightarrow> Inl e
                | Inr b2 \<Rightarrow> Inr (links0 @ b1 @ b2))))"

section \<open>_apiclassmethod: binding an action to the class\<close>

text \<open>\<^verbatim>\<open>isinstance(v, type)\<close> and \<^verbatim>\<open>type(obj)\<close>\<close>

fun isinstance_type :: "pyval \<Rightarrow> bool" where
  "isinstance_type (ClassRef c) = True"
| "isinstance_type v = False"

fun type_of :: "pyval \<Rightarrow> cname" where
  "type_of (InstanceRef c) = c"
| "type_of (ClassRef c) = UserClass ''type''"
| "type_of RequestRef = UserClass ''RequestContainer''"
| "type_of NoneVal = UserClass ''NoneType''"
| "type_of (BoolVal b) = UserClass ''bool''"
| "type_of (StrVal s) = UserClass ''str''"
| "type_of (TupleVal vs) = UserClass ''tuple''"
| "type_of (ListVal vs) = UserClass ''list''"

text \<open>
  The closure \<^verbatim>\<open>newfunc(*args)\<close> that \<^verbatim>\<open>_apiclassmethod.__get__\<close> returns, for the
  method \<^verbatim>\<open>self.f\<close> and the class the access bound. It declares no keyword
  parameters, and it reads \<^verbatim>\<open>args[0]\<close> before anything else.
\<close>

definition newfunc ::
  "(pyval list \<Rightarrow> kwargs \<Rightarrow> 'a) \<Rightarrow> cname \<Rightarrow> pyval list \<Rightarrow> kwargs \<Rightarrow> pyerror + 'a" where
  "newfunc method klass args kw =
     (case kw of
        (k, v) # _ \<Rightarrow> Inl (TypeError (''newfunc() got an unexpected keyword argument '' @ k))
      | [] \<Rightarrow>
          (case args of
             [] \<Rightarrow> Inl (IndexError ''tuple index out of range'')
           | a # _ \<Rightarrow>
               if \<not> isinstance_type a then Inr (method (ClassRef klass # args) [])
               else Inr (method args [])))"

text \<open>\<^verbatim>\<open>_apiclassmethod.__get__(self, obj, klass=None)\<close>\<close>

definition apiclassmethod_get ::
  "(pyval list \<Rightarrow> kwargs \<Rightarrow> 'a) \<Rightarrow> pyval \<Rightarrow> cname option
     \<Rightarrow> pyval list \<Rightarrow> kwargs \<Rightarrow> pyerror + 'a" where
  "apiclassmethod_get f obj klass =
     newfunc f (case klass of None \<Rightarrow> type_of obj | Some k \<Rightarrow> k)"

text \<open>
  Reading the attribute of a class, \<^verbatim>\<open>B.action\<close>, and of an instance of it,
  \<^verbatim>\<open>B().action\<close>: Python finds the descriptor along the resolution order of \<open>B\<close>
  and calls \<^verbatim>\<open>__get__(None, B)\<close>, respectively \<^verbatim>\<open>__get__(obj, B)\<close>. The table
  holds, for each action, the method \<^verbatim>\<open>self.f\<close> of its descriptor.
\<close>

definition class_getattr ::
  "(pyval list \<Rightarrow> kwargs \<Rightarrow> 'a) class_table \<Rightarrow> cname \<Rightarrow> string
     \<Rightarrow> pyerror + (pyval list \<Rightarrow> kwargs \<Rightarrow> pyerror + 'a)" where
  "class_getattr tbl b nm =
     (case class_attr tbl b nm of
        Inl e \<Rightarrow> Inl e
      | Inr f \<Rightarrow> Inr (apiclassmethod_get f NoneVal (Some b)))"

definition instance_getattr ::
  "(pyval list \<Rightarrow> kwargs \<Rightarrow> 'a) class_table \<Rightarrow> cname \<Rightarrow> string
     \<Rightarrow> pyerror + (pyval list \<Rightarrow> kwargs \<Rightarrow> pyerror + 'a)" where
  "instance_getattr tbl b nm =
     (case class_attr tbl b nm of
        Inl e \<Rightarrow> Inl e
      | Inr f \<Rightarrow> Inr (apiclassmethod_get f (InstanceRef b) (Some b)))"

text \<open>
  The parameters \<^verbatim>\<open>(cls, request, *args, **kwargs)\<close> of \<^verbatim>\<open>wrapped\<close>, bound from a
  call's positional and keyword arguments.
\<close>

definition bind_cls_request ::
  "pyval list \<Rightarrow> kwargs \<Rightarrow> pyerror + (pyval \<times> pyval \<times> pyval list \<times> kwargs)" where
  "bind_cls_request pos kw =
     (case pos of
        c # r # rest \<Rightarrow>
          (if ''cls'' \<in> fst ` set kw \<or> ''request'' \<in> fst ` set kw
           then Inl (TypeError ''wrapped() got multiple values for argument'')
           else Inr (c, r, rest, kw))
      | [c] \<Rightarrow>
          (if ''cls'' \<in> fst ` set kw
           then Inl (TypeError ''wrapped() got multiple values for argument'')
           else (case map_of kw ''request'' of
                   None \<Rightarrow> Inl (TypeError ''wrapped() missing 1 required positional argument'')
                 | Some r \<Rightarrow> Inr (c, r, [], filter (\<lambda>(k, v). k \<noteq> ''request'') kw)))
      | [] \<Rightarrow>
          (case (map_of kw ''cls'', map_of kw ''request'') of
             (Some c, Some r) \<Rightarrow>
               Inr (c, r, [], filter (\<lambda>(k, v). k \<noteq> ''cls'' \<and> k \<noteq> ''request'') kw)
           | _ \<Rightarrow> Inl (TypeError ''wrapped() missing required positional arguments'')))"

text \<open>
  \<^verbatim>\<open>wrapped\<close> as the method a descriptor holds: \<open>classes\<close> gives the attributes of
  each resource class (\<^verbatim>\<open>cls.preprocessors\<close>, \<^verbatim>\<open>cls.postprocessors\<close>,
  \<^verbatim>\<open>cls.manager\<close>); an instance reads them from its class.
\<close>

definition wrapped_method ::
  "(cname \<Rightarrow> ('q, 'r) resource_class option) \<Rightarrow> ('q, 'r, 'z) pyfunction
     \<Rightarrow> pyval list \<Rightarrow> kwargs \<Rightarrow> ('q, 'r, 'z) world_scheme
     \<Rightarrow> (pyerror + 'r) \<times> ('q, 'r, 'z) world_scheme" where
  "wrapped_method classes f pos kw w =
     (case bind_cls_request pos kw of
        Inl e \<Rightarrow> (Inl e, w)
      | Inr (c, r, rest, kw1) \<Rightarrow>
          (case (case c of ClassRef k \<Rightarrow> classes k | InstanceRef k \<Rightarrow> classes k | _ \<Rightarrow> None) of
             None \<Rightarrow> (Inl (AttributeError ''preprocessors''), w)
           | Some cls \<Rightarrow> wrapped f cls r rest kw1 w))"

section \<open>Route metadata across decorator layers\<close>

text \<open>
  \<^verbatim>\<open>routes\<close> is a list object that several layers share: \<^verbatim>\<open>functools.wraps\<close>
  copies the wrapped object's \<^verbatim>\<open>__dict__\<close> into the wrapper, so both name the same
  list, and \<^verbatim>\<open>append\<close> mutates it in place. Lists live in a heap; an attribute
  holds an address.
\<close>

type_synonym route_entry = "string \<times> string option \<times> kwargs"

record heap =
  cells :: "nat \<Rightarrow> route_entry list"
  next_free :: nat

definition alloc :: "heap \<Rightarrow> nat \<times> heap" where
  "alloc h = (next_free h, \<lparr> cells = (cells h)(next_free h := []), next_free = Suc (next_free h) \<rparr>)"

text \<open>
  The \<^verbatim>\<open>__dict__\<close> of a function object, as far as the decorators write it
  (\<open>None\<close>: the attribute is absent), and an \<^verbatim>\<open>_apiclassmethod\<close> instance.
\<close>

record fattrs =
  routes_attr :: "nat option"
  rest_route_marker :: "bool option"
  rest_route_attr :: "bool option"
  fields_attr :: "field list option"
  original_fields_attr :: "field list option"
  mfv_attr :: "bool option"

record apiclassmethod_obj =
  acm_f :: fattrs
  acm_rest_route :: bool
  acm_routes :: nat

datatype decorated_obj = FunctionObj fattrs | ApiClassMethod apiclassmethod_obj

definition no_attrs :: fattrs where
  "no_attrs = \<lparr> routes_attr = None, rest_route_marker = None, rest_route_attr = None,
                fields_attr = None, original_fields_attr = None, mfv_attr = None \<rparr>"

text \<open>
  \<^verbatim>\<open>@wraps(f)\<close>: the new function starts with the \<^verbatim>\<open>__dict__\<close> of \<open>f\<close>. For an
  \<^verbatim>\<open>_apiclassmethod\<close> instance that is \<^verbatim>\<open>f\<close> (which nothing reads),
  \<^verbatim>\<open>rest_route\<close> and \<^verbatim>\<open>routes\<close>.
\<close>

fun wraps :: "decorated_obj \<Rightarrow> fattrs" where
  "wraps (FunctionObj a) = a"
| "wraps (ApiClassMethod d) =
     no_attrs\<lparr>routes_attr := Some (acm_routes d), rest_route_attr := Some (acm_rest_route d)\<rparr>"

fun routes_address :: "decorated_obj \<Rightarrow> nat option" where
  "routes_address (FunctionObj a) = routes_attr a"
| "routes_address (ApiClassMethod d) = Some (acm_routes d)"

text \<open>\<^verbatim>\<open>getattr(obj, 'routes', [])\<close>: the list the attribute names, or a new empty list.\<close>

definition getattr_routes :: "nat option \<Rightarrow> heap \<Rightarrow> nat \<times> heap" where
  "getattr_routes r h = (case r of Some a \<Rightarrow> (a, h) | None \<Rightarrow> alloc h)"

text \<open>\<^verbatim>\<open>_apiclassmethod.__init__(self, f)\<close>\<close>

definition apiclassmethod_init :: "fattrs \<Rightarrow> heap \<Rightarrow> apiclassmethod_obj \<times> heap" where
  "apiclassmethod_init f h =
     (case getattr_routes (routes_attr f) h of
        (a, h1) \<Rightarrow> (\<lparr> acm_f = f, acm_rest_route = True, acm_routes = a \<rparr>, h1))"

text \<open>
  The attributes of the function \<^verbatim>\<open>newfunc\<close> that \<^verbatim>\<open>__get__\<close> returns:
  \<^verbatim>\<open>@wraps(method)\<close>, then \<^verbatim>\<open>__rest_route__\<close> and \<^verbatim>\<open>routes\<close>.
\<close>

definition newfunc_attrs :: "apiclassmethod_obj \<Rightarrow> heap \<Rightarrow> fattrs \<times> heap" where
  "newfunc_attrs self h =
     (case getattr_routes (routes_attr (acm_f self)) h of
        (a, h1) \<Rightarrow> ((acm_f self)\<lparr>rest_route_marker := Some True, routes_attr := Some a\<rparr>, h1))"

record apimethod_self =
  am_route :: string
  am_endpoint :: "string option"
  am_options :: kwargs

text \<open>\<^verbatim>\<open>apimethod.__init__(self, route='', endpoint=None, **options)\<close>\<close>

definition apimethod_init :: "string \<Rightarrow> string option \<Rightarrow> kwargs \<Rightarrow> apimethod_self" where
  "apimethod_init route endpoint options =
     \<lparr> am_route = route, am_endpoint = endpoint, am_options = options \<rparr>"

text \<open>\<^verbatim>\<open>apimethod.__call__(self, f)\<close>: the attributes of \<^verbatim>\<open>wrapped\<close> and the object returned.\<close>

definition apimethod_call :: "apimethod_self \<Rightarrow> decorated_obj \<Rightarrow> heap \<Rightarrow> decorated_obj \<times> heap" where
  "apimethod_call self f h =
     (let wrapped0 = (wraps f)\<lparr>rest_route_marker := Some True\<rparr>
      in case getattr_routes (routes_address f) h of
           (a, h1) \<Rightarrow>
             (let wrapped1 = wrapped0\<lparr>routes_attr := Some a\<rparr>;
                  h2 = h1\<lparr>cells := (cells h1)
                          (a := cells h1 a @ [(am_route self, am_endpoint self, am_options self)])\<rparr>
              in case apiclassmethod_init wrapped1 h2 of
                   (d, h3) \<Rightarrow> (ApiClassMethod d, h3)))"

text \<open>\<^verbatim>\<open>validate.__call__(self, f)\<close>: the function \<^verbatim>\<open>action\<close> it returns.\<close>

definition validate_decorate :: "validate_self \<Rightarrow> decorated_obj \<Rightarrow> decorated_obj" where
  "validate_decorate self f =
     (case validate_call self of
        (self1, attrs) \<Rightarrow>
          FunctionObj ((wraps f)\<lparr>fields_attr := Some (a_fields attrs),
                                  original_fields_attr := Some (a_original_fields attrs),
                                  mfv_attr := Some (a_manager_field_validators attrs)\<rparr>))"

record translate_self =
  t_fields :: "field list"
  t_manager_field_validators :: bool

text \<open>\<^verbatim>\<open>translate.__init__(self, fields=None, manager_field_validators=False)\<close>\<close>

definition translate_init :: "field list option \<Rightarrow> bool \<Rightarrow> translate_self" where
  "translate_init fields_arg manager_field_validators =
     \<lparr> t_fields = (case fields_arg of None \<Rightarrow> [] | Some fs \<Rightarrow> fs),
       t_manager_field_validators = manager_field_validators \<rparr>"

text \<open>\<^verbatim>\<open>translate.__call__(self, f)\<close>: the function \<^verbatim>\<open>action\<close> it returns.\<close>

definition translate_decorate :: "translate_self \<Rightarrow> decorated_obj \<Rightarrow> decorated_obj" where
  "translate_decorate self f =
     FunctionObj ((wraps f)\<lparr>fields_attr := Some (t_fields self),
                             original_fields_attr := Some (t_fields self),
                             mfv_attr := Some (t_manager_field_validators self)\<rparr>)"

text \<open>The closure \<^verbatim>\<open>action(cls, request, *args, **kwargs)\<close> of \<^verbatim>\<open>translate.__call__\<close>.\<close>

definition translate_action ::
  "'q request_container \<Rightarrow> translate_self \<Rightarrow> ('q, 'r, 'z) pyfunction \<Rightarrow> ('q, 'r, 'z) callable" where
  "translate_action rc self f cls req args kw w =
     (if t_manager_field_validators self then
        (case cls_manager cls of
           None \<Rightarrow> (Inl (AttributeError ''field_validators''), w)
         | Some m \<Rightarrow>
             (case request_translate rc req (t_fields self @ field_validators m) w of
                (Some e, w2) \<Rightarrow> (Inl e, w2)
              | (None, w2) \<Rightarrow> fn_call f cls req args kw w2))
      else
        (case request_translate rc req (t_fields self) w of
           (Some e, w2) \<Rightarrow> (Inl e, w2)
         | (None, w2) \<Rightarrow> fn_call f cls req args kw w2))"

text \<open>A stack of decorators on one function, innermost first.\<close>

datatype decorator =
    Apimethod string "string option" kwargs
  | Validate "field list option" bool bool
  | Translate "field list option" bool

fun apply_decorator :: "decorator \<Rightarrow> decorated_obj \<times> heap \<Rightarrow> decorated_obj \<times> heap" where
  "apply_decorator (Apimethod route endpoint options) (f, h) =
     apimethod_call (apimethod_init route endpoint options) f h"
| "apply_decorator (Validate fields_arg mfv skip) (f, h) =
     (validate_decorate (validate_init fields_arg mfv skip) f, h)"
| "apply_decorator (Translate fields_arg mfv) (f, h) =
     (translate_decorate (translate_init fields_arg mfv) f, h)"

fun decorate :: "decorator list \<Rightarrow> decorated_obj \<times> heap \<Rightarrow> decorated_obj \<times> heap" where
  "decorate [] s = s"
| "decorate (d # ds) s = decorate ds (apply_decorator d s)"

text \<open>The routes an object carries: the content of its list, nothing without the attribute.\<close>

definition routes :: "decorated_obj \<times> heap \<Rightarrow> route_entry list" where
  "routes s = (case routes_address (fst s) of None \<Rightarrow> [] | Some a \<Rightarrow> cells (snd s) a)"

fun route_entries :: "decorator list \<Rightarrow> route_entry list" where
  "route_entries [] = []"
| "route_entries (Apimethod route endpoint options # ds) =
     (route, endpoint, options) # route_entries ds"
| "route_entries (d # ds) = route_entries ds"

section \<open>The action declarations of the mixins\<close>

text \<open>
  A call \<^verbatim>\<open>translate(k1=v1, ...)\<close> with keyword arguments only, as the mixins write
  it: a keyword that names no parameter of \<^verbatim>\<open>translate.__init__\<close> raises
  \<^verbatim>\<open>TypeError\<close> before the body runs.
\<close>

fun truthy :: "pyval \<Rightarrow> bool" where
  "truthy NoneVal = False"
| "truthy (BoolVal b) = b"
| "truthy (StrVal s) = (s \<noteq> [])"
| "truthy (TupleVal vs) = (vs \<noteq> [])"
| "truthy (ListVal vs) = (vs \<noteq> [])"
| "truthy v = True"

fun field_names :: "pyval \<Rightarrow> field list option" where
  "field_names (ListVal vs) = Some (concat (map (\<lambda>v. case v of StrVal s \<Rightarrow> [s] | _ \<Rightarrow> []) vs))"
| "field_names v = None"

definition translate_new :: "kwargs \<Rightarrow> pyerror + translate_self" where
  "translate_new kw =
     (case filter (\<lambda>(k, v). k \<notin> set [''fields'', ''manager_field_validators'']) kw of
        (k, v) # _ \<Rightarrow> Inl (TypeError (''__init__() got an unexpected keyword argument '' @ k))
      | [] \<Rightarrow>
          Inr (translate_init
                 (case map_of kw ''fields'' of None \<Rightarrow> None | Some v \<Rightarrow> field_names v)
                 (case map_of kw ''manager_field_validators'' of
                    None \<Rightarrow> False | Some v \<Rightarrow> truthy v)))"

text \<open>
  The declaration of an action in a class body: the decorator expressions are evaluated
  from the top, then applied from the bottom.
  \<^verbatim>\<open>@apimethod(**options) @translate(**keywords) def name(cls, request)\<close>
\<close>

definition declare_action :: "kwargs \<Rightarrow> kwargs \<Rightarrow> heap \<Rightarrow> pyerror + decorated_obj \<times> heap" where
  "declare_action options keywords h =
     (let am = apimethod_init [] None options
      in case translate_new keywords of
           Inl e \<Rightarrow> Inl e
         | Inr t \<Rightarrow> Inr (apimethod_call am (translate_decorate t (FunctionObj no_attrs)) h))"

definition Create_create :: "heap \<Rightarrow> pyerror + decorated_obj \<times> heap" where
  "Create_create =
     declare_action [(''methods'', ListVal [StrVal ''POST'']), (''no_pks'', BoolVal True)]
       [(''manager_field_validators'', BoolVal True), (''validate'', BoolVal True)]"

definition Retrieve_retrieve :: "heap \<Rightarrow> pyerror + decorated_obj \<times> heap" where
  "Retrieve_retrieve =
     declare_action [(''methods'', ListVal [StrVal ''GET''])]
       [(''manager_field_validators'', BoolVal True)]"

definition Update_update :: "heap \<Rightarrow> pyerror + decorated_obj \<times> heap" where
  "Update_update =
     declare_action [(''methods'', ListVal [StrVal ''PATCH''])]
       [(''manager_field_validators'', BoolVal True), (''skip_required'', BoolVal True),
        (''validate'', BoolVal True)]"

definition RetrieveList_retrieve_list :: "heap \<Rightarrow> pyerror + decorated_obj \<times> heap" where
  "RetrieveList_retrieve_list =
     declare_action [(''methods'', ListVal [StrVal ''GET'']), (''no_pks'', BoolVal True)]
       [(''manager_field_validators'', BoolVal True), (''validate'', BoolVal False)]"

definition Delete_delete :: "heap \<Rightarrow> pyerror + decorated_obj \<times> heap" where
  "Delete_delete =
     declare_action [(''methods'', ListVal [StrVal ''DELETE''])]
       [(''manager_field_validators'', BoolVal True)]"

section \<open>The module restmixins\<close>

text \<open>
  A class body is a sequence of statements, run in order before the class is created:
  the declaration of an action (which may raise, and ends the class statement when it
  does) or the binding of another member.
\<close>

datatype body_statement =
    ActionDeclaration "heap \<Rightarrow> pyerror + decorated_obj \<times> heap"
  | MemberDeclaration string class_member

fun exec_body ::
  "body_statement list \<Rightarrow> heap \<Rightarrow> pyerror + ((string \<times> class_member) list \<times> heap)" where
  "exec_body [] h = Inr ([], h)"
| "exec_body (ActionDeclaration d # ss) h =
     (case d h of
        Inl e \<Rightarrow> Inl e
      | Inr (a, h1) \<Rightarrow> exec_body ss h1)"
| "exec_body (MemberDeclaration nm v # ss) h =
     (case exec_body ss h of
        Inl e \<Rightarrow> Inl e
      | Inr (ms, h1) \<Rightarrow> Inr ((nm, v) # ms, h1))"

text \<open>
  Class statements in order: the bases are looked up, the body runs, the class is
  created with its resolution order. The first exception ends the module.
\<close>

fun class_statements ::
  "(cname \<times> cname list \<times> body_statement list) list \<Rightarrow> class_member class_table \<Rightarrow> heap
     \<Rightarrow> pyerror + (class_member class_table \<times> heap)" where
  "class_statements [] tbl h = Inr (tbl, h)"
| "class_statements ((c, bases, body) # ds) tbl h =
     (case those (map (mro_of tbl) bases) of
        None \<Rightarrow> Inl (Raised ''NameError'')
      | Some mros \<Rightarrow>
          (case exec_body body h of
             Inl e \<Rightarrow> Inl e
           | Inr (members, h1) \<Rightarrow>
               (case define_class tbl c bases members of
                  Inl e \<Rightarrow> Inl e
                | Inr tbl1 \<Rightarrow> class_statements ds tbl1 h1)))"

text \<open>The class statements of \<^verbatim>\<open>restmixins.py\<close>, in the order of the module.\<close>

definition restmixins_classes :: "(cname \<times> cname list \<times> body_statement list) list" where
  "restmixins_classes =
     [(Create, [ResourceBase],
         [MemberDeclaration ''__abstract__'' (AbstractFlag True),
          ActionDeclaration Create_create,
          MemberDeclaration ''links'' (ClassProperty Create_links),
          MemberDeclaration ''get_base_links'' (StaticMethod Create_get_base_links)]),
      (Retrieve, [ResourceBase],
         [MemberDeclaration ''__abstract__'' (AbstractFlag True),
          ActionDeclaration Retrieve_retrieve]),
      (RetrieveList, [ResourceBase],
         [MemberDeclaration ''__abstract__'' (AbstractFlag True),
          ActionDeclaration RetrieveList_retrieve_list,
          MemberDeclaration ''links'' (ClassProperty RetrieveList_links),
          MemberDeclaration ''get_base_links'' (StaticMethod RetrieveList_get_base_links)]),
      (RetrieveRetrieveList, [RetrieveList, Retrieve],
         [MemberDeclaration ''relationships'' RelationshipsProperty]),
      (Update, [ResourceBase],
         [MemberDeclaration ''__abstract__'' (AbstractFlag True),
          ActionDeclaration Update_update]),
      (Delete, [ResourceBase],
         [MemberDeclaration ''__abstract__'' (AbstractFlag True),
          ActionDeclaration Delete_delete]),
      (RetrieveUpdate, [Retrieve, Update],
         [MemberDeclaration ''__abstract__'' (AbstractFlag True)]),
      (RetrieveUpdateDelete, [Retrieve, Update, Delete],
         [MemberDeclaration ''__abstract__'' (AbstractFlag True)]),
      (CreateRetrieve, [Create, Retrieve],
         [MemberDeclaration ''__abstract__'' (AbstractFlag True)]),
      (CreateRetrieveUpdate, [Create, Retrieve, Update],
         [MemberDeclaration ''__abstract__'' (AbstractFlag True)]),
      (CRUD, [Create, Retrieve, Update, Delete],
         [MemberDeclaration ''__abstract__'' (AbstractFlag True)]),
      (CRUDL, [Create, RetrieveRetrieveList, Update, Delete],
         [MemberDeclaration ''__abstract__'' (AbstractFlag True),
          MemberDeclaration ''links'' (ClassProperty CRUDL_links)])]"

text \<open>
  The names \<^verbatim>\<open>ripozo/decorators.py\<close> binds at module level, and
  \<^verbatim>\<open>from ripozo.decorators import n1, ..., nk\<close>, which raises for the first name the
  module does not bind.
\<close>

definition decorators_names :: "string list" where
  "decorators_names = [''_apiclassmethod'', ''apimethod'', ''validate'', ''translate'']"

definition import_from_decorators :: "string list \<Rightarrow> pyerror option" where
  "import_from_decorators names =
     (case filter (\<lambda>n. n \<notin> set decorators_names) names of
        [] \<Rightarrow> None
      | n # _ \<Rightarrow> Some (Raised (''ImportError: cannot import name '' @ n)))"

text \<open>
  Importing \<^verbatim>\<open>ripozo.resources.restmixins\<close>: its import of
  \<^verbatim>\<open>apimethod, translate, classproperty\<close>, then its class statements. \<open>tbl\<close> holds
  the classes the other imports bring (\<^verbatim>\<open>ResourceBase\<close> is not among the sources).
\<close>

definition restmixins ::
  "class_member class_table \<Rightarrow> heap \<Rightarrow> pyerror + (class_member class_table \<times> heap)" where
  "restmixins tbl h =
     (case import_from_decorators [''apimethod'', ''translate'', ''classproperty''] of
        Some e \<Rightarrow> Inl e
      | None \<Rightarrow> class_statements restmixins_classes tbl h)"

text \<open>What \<^verbatim>\<open>self.fields\<close> holds after one call of \<^verbatim>\<open>action\<close>.\<close>

definition next_fields :: "validate_self \<Rightarrow> ('q, 'r) resource_class \<Rightarrow> field list \<Rightarrow> field list" where
  "next_fields s cls fl =
     (if v_manager_field_validators s then
        (case v_original_fields s of
           None \<Rightarrow> fl
         | Some ofs \<Rightarrow>
             (case cls_manager cls of None \<Rightarrow> fl | Some m \<Rightarrow> ofs @ field_validators m))
      else fl)"

section \<open>A base class and a subclass\<close>

text \<open>
  \<^verbatim>\<open>class A\<close> carries an action whose function returns the positional arguments it
  was invoked with (the first of them is its \<^verbatim>\<open>cls\<close>); \<^verbatim>\<open>class B(A)\<close> declares
  nothing.
\<close>

definition received_args :: "pyval list \<Rightarrow> kwargs \<Rightarrow> pyval list" where
  "received_args args kw = args"

definition base_and_subclass :: "pyerror + (pyval list \<Rightarrow> kwargs \<Rightarrow> pyval list) class_table" where
  "base_and_subclass =
     define_classes
       [(UserClass ''A'', [], [(''action'', received_args)]),
        (UserClass ''B'', [UserClass ''A''], [])] []"

section \<open>The processor chain of an action\<close>

lemma pre_events_Suc:
  "pre_events i (Suc k) c nm rq a kw =
     PreprocessorCalled i c nm rq a kw # pre_events (Suc i) k c nm rq a kw"
  by (simp add: pre_events_def upt_rec)

lemma post_events_Suc:
  "post_events i (Suc k) c nm rq r a kw =
     PostprocessorCalled i c nm rq r a kw # post_events (Suc i) k c nm rq r a kw"
  by (simp add: post_events_def upt_rec)

text \<open>
  \<open>qs\<close> lists the states in which the processors leave the request: processor \<open>i\<close>
  is called on \<open>(request w # qs) ! i\<close> and leaves \<open>qs ! i\<close>.
\<close>

lemma run_preprocessors_return:
  assumes "length qs = length procs"
    and "\<forall>i<length procs. (procs ! i) c nm rq ((request w # qs) ! i) a kw = (None, qs ! i)"
  shows "run_preprocessors i0 procs c nm rq a kw w =
     (None, w\<lparr>trace := trace w @ pre_events i0 (length procs) c nm rq a kw,
               request := last (request w # qs)\<rparr>)"
  using assms
proof (induction procs arbitrary: qs w i0)
  case Nil
  then show ?case by (simp add: pre_events_def)
next
  case (Cons p ps)
  from Cons.prems(1) obtain q1 qs' where qs: "qs = q1 # qs'" by (cases qs) auto
  from Cons.prems(2) [rule_format, of 0] have p: "p c nm rq (request w) a kw = (None, q1)"
    by (simp add: qs)
  let ?w1 = "w\<lparr>trace := trace w @ [PreprocessorCalled i0 c nm rq a kw], request := q1\<rparr>"
  have len: "length qs' = length ps" using Cons.prems(1) qs by simp
  have rest: "\<forall>i<length ps. (ps ! i) c nm rq ((request ?w1 # qs') ! i) a kw = (None, qs' ! i)"
  proof (intro allI impI)
    fix i assume "i < length ps"
    with Cons.prems(2) [rule_format, of "Suc i"] show
      "(ps ! i) c nm rq ((request ?w1 # qs') ! i) a kw = (None, qs' ! i)"
      by (simp add: qs)
  qed
  from Cons.IH [OF len rest, of "Suc i0"] p show ?case
    by (simp add: Let_def qs pre_events_Suc)
qed


lemma run_postprocessors_return:
  assumes "length qs = length procs"
    and "\<forall>i<length procs. (procs ! i) c nm rq ((request w # qs) ! i) r a kw = (None, qs ! i)"
  shows "run_postprocessors i0 procs c nm rq r a kw w =
     (None, w\<lparr>trace := trace w @ post_events i0 (length procs) c nm rq r a kw,
               request := last (request w # qs)\<rparr>)"
  using assms
proof (induction procs arbitrary: qs w i0)
  case Nil
  then show ?case by (simp add: post_events_def)
next
  case (Cons p ps)
  from Cons.prems(1) obtain q1 qs' where qs: "qs = q1 # qs'" by (cases qs) auto
  from Cons.prems(2) [rule_format, of 0] have p: "p c nm rq (request w) r a kw = (None, q1)"
    by (simp add: qs)
  let ?w1 = "w\<lparr>trace := trace w @ [PostprocessorCalled i0 c nm rq r a kw], request := q1\<rparr>"
  have len: "length qs' = length ps" using Cons.prems(1) qs by simp
  have rest: "\<forall>i<length ps. (ps ! i) c nm rq ((request ?w1 # qs') ! i) r a kw = (None, qs' ! i)"
  proof (intro allI impI)
    fix i assume "i < length ps"
    with Cons.prems(2) [rule_format, of "Suc i"] show
      "(ps ! i) c nm rq ((request ?w1 # qs') ! i) r a kw = (None, qs' ! i)"
      by (simp add: qs)
  qed
  from Cons.IH [OF len rest, of "Suc i0"] p show ?case
    by (simp add: Let_def qs post_events_Suc)
qed




lemma wrapped_function_raises:
  assumes "length qs = length (preprocessors cls)"
    and "\<forall>i<length (preprocessors cls).
            (preprocessors cls ! i) (cls_ref cls) (fn_name f) rq ((request w # qs) ! i) args kw
               = (None, qs ! i)"
    and "fn_call f cls rq args kw
           (w\<lparr>trace := trace w @ pre_events 0 (length (preprocessors cls)) (cls_ref cls)
                             (fn_name f) rq args kw,
              request := last (request w # qs)\<rparr>) = (Inl e, w2)"
  shows "wrapped f cls rq args kw w = (Inl e, w2)"
  using run_preprocessors_return [OF assms(1) assms(2), of 0] assms(3)
  by (simp add: wrapped_def)


lemma wrapped_returns:
  assumes "length qs = length (preprocessors cls)"
    and "\<forall>i<length (preprocessors cls).
            (preprocessors cls ! i) (cls_ref cls) (fn_name f) rq ((request w # qs) ! i) args kw
               = (None, qs ! i)"
    and "fn_call f cls rq args kw
           (w\<lparr>trace := trace w @ pre_events 0 (length (preprocessors cls)) (cls_ref cls)
                             (fn_name f) rq args kw,
              request := last (request w # qs)\<rparr>) = (Inr resource, w2)"
    and "length ps = length (postprocessors cls)"
    and "\<forall>i<length (postprocessors cls).
            (postprocessors cls ! i) (cls_ref cls) (fn_name f) rq ((request w2 # ps) ! i)
               resource args kw = (None, ps ! i)"
  shows "wrapped f cls rq args kw w =
     (Inr resource,
      w2\<lparr>trace := trace w2 @ post_events 0 (length (postprocessors cls)) (cls_ref cls)
                        (fn_name f) rq resource args kw,
         request := last (request w2 # ps)\<rparr>)"
  using run_preprocessors_return [OF assms(1) assms(2), of 0] assms(3)
    run_postprocessors_return [OF assms(4) assms(5), of 0]
  by (simp add: wrapped_def)




text \<open>
  With a function in the place of \<open>f\<close>, the complete run is the pre-processors, the
  function, the post-processors.
\<close>

lemma wrapped_function_returns:
  fixes w :: "('q, 'r, 'z) world_scheme"
  assumes pre: "length qs = length (preprocessors cls)"
      "\<forall>i<length (preprocessors cls).
          (preprocessors cls ! i) (cls_ref cls) nm rq ((request w # qs) ! i) args kw
             = (None, qs ! i)"
    and body: "body cls rq (last (request w # qs)) args kw = (Inr resource, qb)"
    and post: "length ps = length (postprocessors cls)"
      "\<forall>i<length (postprocessors cls).
          (postprocessors cls ! i) (cls_ref cls) nm rq ((qb # ps) ! i) resource args kw
             = (None, ps ! i)"
  shows "wrapped (plain_function nm body) cls rq args kw w =
     (Inr resource,
      w\<lparr>trace := trace w
                  @ pre_events 0 (length (preprocessors cls)) (cls_ref cls) nm rq args kw
                  @ [FunctionCalled nm (cls_ref cls) rq args kw]
                  @ post_events 0 (length (postprocessors cls)) (cls_ref cls) nm rq resource
                      args kw,
        request := last (qb # ps)\<rparr>)"
proof -
  let ?f = "plain_function nm body :: ('q, 'r, 'z) pyfunction"
  let ?w1 = "w\<lparr>trace := trace w @ pre_events 0 (length (preprocessors cls)) (cls_ref cls)
                                   (fn_name ?f) rq args kw,
               request := last (request w # qs)\<rparr>"
  let ?w2 = "?w1\<lparr>trace := trace ?w1 @ [FunctionCalled nm (cls_ref cls) rq args kw],
                 request := qb\<rparr>"
  have nm: "fn_name ?f = nm" by (simp add: plain_function_def)
  have call: "fn_call ?f cls rq args kw ?w1 = (Inr resource, ?w2)"
    using body by (simp add: plain_function_def Let_def)
  have post': "\<forall>i<length (postprocessors cls).
          (postprocessors cls ! i) (cls_ref cls) (fn_name ?f) rq ((request ?w2 # ps) ! i)
             resource args kw = (None, ps ! i)"
    using post(2) by (simp add: nm)
  have pre': "\<forall>i<length (preprocessors cls).
          (preprocessors cls ! i) (cls_ref cls) (fn_name ?f) rq ((request w # qs) ! i) args kw
             = (None, qs ! i)"
    using pre(2) by (simp add: nm)
  from wrapped_returns [OF pre(1) pre' call post(1) post'] show ?thesis
    by (simp add: nm)
qed

text \<open>
  With an \<^verbatim>\<open>_apiclassmethod\<close> instance in the place of \<open>f\<close> (\<^verbatim>\<open>apimethod\<close> applied to
  the result of \<^verbatim>\<open>apimethod\<close>), the call of \<open>f\<close> is the one that raises: the
  pre-processors have run, no post-processor does.
\<close>

lemma wrapped_apiclassmethod_callee:
  fixes w :: "('q, 'r, 'z) world_scheme"
  assumes "length qs = length (preprocessors cls)"
    and "\<forall>i<length (preprocessors cls).
            (preprocessors cls ! i) (cls_ref cls) ''_apiclassmethod'' rq ((request w # qs) ! i)
               args kw = (None, qs ! i)"
  shows "wrapped apiclassmethod_callee cls rq args kw w =
     (Inl (TypeError ''_apiclassmethod object is not callable''),
      w\<lparr>trace := trace w @ pre_events 0 (length (preprocessors cls)) (cls_ref cls)
                             ''_apiclassmethod'' rq args kw,
        request := last (request w # qs)\<rparr>)"
proof -
  let ?f = "apiclassmethod_callee :: ('q, 'r, 'z) pyfunction"
  have nm: "fn_name ?f = ''_apiclassmethod''" by (simp add: apiclassmethod_callee_def)
  have pre': "\<forall>i<length (preprocessors cls).
          (preprocessors cls ! i) (cls_ref cls) (fn_name ?f) rq ((request w # qs) ! i) args kw
             = (None, qs ! i)"
    using assms(2) by (simp add: nm)
  have call: "fn_call ?f cls rq args kw
           (w\<lparr>trace := trace w @ pre_events 0 (length (preprocessors cls)) (cls_ref cls)
                             (fn_name ?f) rq args kw,
              request := last (request w # qs)\<rparr>)
        = (Inl (TypeError ''_apiclassmethod object is not callable''),
           w\<lparr>trace := trace w @ pre_events 0 (length (preprocessors cls)) (cls_ref cls)
                             (fn_name ?f) rq args kw,
              request := last (request w # qs)\<rparr>)"
    by (simp add: apiclassmethod_callee_def)
  from wrapped_function_raises [OF assms(1) pre' call] show ?thesis by (simp add: nm)
qed


text \<open>
  Every run of a processor list is one of the two the theorem speaks of: all processors
  return, or one of them is the first to raise.
\<close>

lemma chain_exists:
  fixes gs :: "('q \<Rightarrow> 'e option \<times> 'q) list"
  shows "(\<exists>qs. length qs = length gs
            \<and> (\<forall>i<length gs. (gs ! i) ((q # qs) ! i) = (None, qs ! i)))
       \<or> (\<exists>k qs e q'. k < length gs \<and> length qs = k
            \<and> (\<forall>i<k. (gs ! i) ((q # qs) ! i) = (None, qs ! i))
            \<and> (gs ! k) (last (q # qs)) = (Some e, q'))"
proof (induction gs rule: rev_induct)
  case Nil
  show ?case by simp
next
  case (snoc g gs)
  from snoc.IH show ?case
  proof
    assume "\<exists>qs. length qs = length gs
              \<and> (\<forall>i<length gs. (gs ! i) ((q # qs) ! i) = (None, qs ! i))"
    then obtain qs where qs: "length qs = length gs"
      "\<forall>i<length gs. (gs ! i) ((q # qs) ! i) = (None, qs ! i)" by blast
    obtain x q1 where g: "g (last (q # qs)) = (x, q1)" by (cases "g (last (q # qs))")
    have "last (q # qs) = (q # qs) ! (length (q # qs) - 1)"
      by (rule last_conv_nth) simp
    then have lastn: "(q # qs) ! length gs = last (q # qs)"
      using qs(1) by simp
    show ?thesis
    proof (cases x)
      case None
      have "length (qs @ [q1]) = length (gs @ [g])" using qs(1) by simp
      moreover have "\<forall>i<length (gs @ [g]).
          ((gs @ [g]) ! i) ((q # qs @ [q1]) ! i) = (None, (qs @ [q1]) ! i)"
      proof (intro allI impI)
        fix i assume i: "i < length (gs @ [g])"
        show "((gs @ [g]) ! i) ((q # qs @ [q1]) ! i) = (None, (qs @ [q1]) ! i)"
        proof (cases "i < length gs")
          case True
          then have "(q # qs @ [q1]) ! i = (q # qs) ! i"
            using qs(1) by (simp add: nth_append flip: append_Cons)
          with True qs show ?thesis by (simp add: nth_append)
        next
          case False
          with i have ieq: "i = length gs" by simp
          have "(q # qs @ [q1]) ! i = (q # qs) ! length gs"
            using qs(1) ieq by (simp add: nth_append flip: append_Cons)
          with ieq g None lastn qs(1) show ?thesis by (simp add: nth_append)
        qed
      qed
      ultimately show ?thesis by blast
    next
      case (Some e)
      have "length gs < length (gs @ [g])" by simp
      moreover have "\<forall>i<length gs. ((gs @ [g]) ! i) ((q # qs) ! i) = (None, qs ! i)"
        using qs(2) by (simp add: nth_append)
      moreover have "((gs @ [g]) ! length gs) (last (q # qs)) = (Some e, q1)"
        using g Some by simp
      ultimately show ?thesis using qs(1) by blast
    qed
  next
    assume "\<exists>k qs e q'. k < length gs \<and> length qs = k
            \<and> (\<forall>i<k. (gs ! i) ((q # qs) ! i) = (None, qs ! i))
            \<and> (gs ! k) (last (q # qs)) = (Some e, q')"
    then obtain k qs e q' where k: "k < length gs" "length qs = k"
      "\<forall>i<k. (gs ! i) ((q # qs) ! i) = (None, qs ! i)"
      "(gs ! k) (last (q # qs)) = (Some e, q')" by blast
    have "k < length (gs @ [g])" using k(1) by simp
    moreover have "\<forall>i<k. ((gs @ [g]) ! i) ((q # qs) ! i) = (None, qs ! i)"
      using k(1,3) by (simp add: nth_append)
    moreover have "((gs @ [g]) ! k) (last (q # qs)) = (Some e, q')"
      using k(1,4) by (simp add: nth_append)
    ultimately show ?thesis using k(2) by blast
  qed
qed

lemma preprocessor_chain_exists:
  "(\<exists>qs. length qs = length procs
      \<and> (\<forall>i<length procs. (procs ! i) c nm rq ((q # qs) ! i) a kw = (None, qs ! i)))
   \<or> (\<exists>k qs e q'. k < length procs \<and> length qs = k
      \<and> (\<forall>i<k. (procs ! i) c nm rq ((q # qs) ! i) a kw = (None, qs ! i))
      \<and> (procs ! k) c nm rq (last (q # qs)) a kw = (Some e, q'))"
  using chain_exists [of "map (\<lambda>p x. p c nm rq x a kw) procs" q]
  by (simp cong: conj_cong)

lemma postprocessor_chain_exists:
  "(\<exists>qs. length qs = length procs
      \<and> (\<forall>i<length procs. (procs ! i) c nm rq ((q # qs) ! i) r a kw = (None, qs ! i)))
   \<or> (\<exists>k qs e q'. k < length procs \<and> length qs = k
      \<and> (\<forall>i<k. (procs ! i) c nm rq ((q # qs) ! i) r a kw = (None, qs ! i))
      \<and> (procs ! k) c nm rq (last (q # qs)) r a kw = (Some e, q'))"
  using chain_exists [of "map (\<lambda>p x. p c nm rq x r a kw) procs" q]
  by (simp cong: conj_cong)


section \<open>The validate wrapper\<close>

lemma plain_function_vself:
  "fn_call (plain_function nm body) cls rq args kw (w\<lparr>vself := s\<rparr>) =
     (case fn_call (plain_function nm body) cls rq args kw w of (r, w1) \<Rightarrow> (r, w1\<lparr>vself := s\<rparr>))"
  by (simp add: plain_function_def Let_def split: prod.splits)

lemma plain_function_frame:
  "fn_call (plain_function nm body) cls rq args kw w = (r, w1) \<Longrightarrow>
     vself w1 = vself w \<and> vaction w1 = vaction w"
  by (auto simp: plain_function_def Let_def split: prod.splits)

lemma request_validate_vself:
  "request_validate rc rq flds skip (w\<lparr>vself := s\<rparr>) =
     (case request_validate rc rq flds skip w of (r, w1) \<Rightarrow> (r, w1\<lparr>vself := s\<rparr>))"
  by (simp add: request_validate_def Let_def split: prod.splits)

lemma request_validate_frame:
  "request_validate rc rq flds skip w = (r, w1) \<Longrightarrow>
     vself w1 = vself w \<and> vaction w1 = vaction w"
  by (auto simp: request_validate_def Let_def split: prod.splits if_splits)

lemma without_assignment_frame:
  "action_without_assignment rc (plain_function nm body) cls rq args kw w = (r, w1) \<Longrightarrow>
     vself w1 = vself w \<and> vaction w1 = vaction w"
  by (auto simp: action_without_assignment_def split: if_splits option.splits prod.splits
           dest!: request_validate_frame plain_function_frame)

lemma action_simulates:
  assumes "v_original_fields (vself w) = Some ofs"
  shows "action rc (plain_function nm body) cls rq args kw
           (w\<lparr>vself := (vself w)\<lparr>v_fields := fl\<rparr>\<rparr>) =
     (case action_without_assignment rc (plain_function nm body) cls rq args kw w of
        (r, w1) \<Rightarrow> (r, w1\<lparr>vself := (vself w)\<lparr>v_fields := next_fields (vself w) cls fl\<rparr>\<rparr>))"
  using assms
  by (simp add: action_def action_without_assignment_def next_fields_def Let_def
        request_validate_vself plain_function_vself
      split: option.splits prod.splits)

lemma run_calls_without_frame:
  "run_calls (action_without_assignment rc (plain_function nm body)) cs w = (rs, w1) \<Longrightarrow>
     vself w1 = vself w \<and> vaction w1 = vaction w"
proof (induction cs arbitrary: w rs w1)
  case Nil
  then show ?case by simp
next
  case (Cons c cs)
  obtain cls rq q args kw where c: "c = (cls, rq, q, args, kw)" by (cases c)
  obtain r wa where a: "action_without_assignment rc (plain_function nm body) cls rq args kw
      (w\<lparr>request := q\<rparr>) = (r, wa)" by fastforce
  obtain rs' wb where b: "run_calls (action_without_assignment rc (plain_function nm body)) cs wa
      = (rs', wb)" by fastforce
  from Cons.prems c a b have "w1 = wb" by simp
  with without_assignment_frame [OF a] Cons.IH [OF b] show ?case by simp
qed

lemma run_calls_simulates:
  assumes "v_original_fields (vself w) = Some ofs"
  shows "\<exists>fl'. run_calls (action rc (plain_function nm body)) cs
                 (w\<lparr>vself := (vself w)\<lparr>v_fields := fl\<rparr>\<rparr>) =
     (case run_calls (action_without_assignment rc (plain_function nm body)) cs w of
        (rs, w1) \<Rightarrow> (rs, w1\<lparr>vself := (vself w)\<lparr>v_fields := fl'\<rparr>\<rparr>))"
  using assms
proof (induction cs arbitrary: w fl)
  case Nil
  then show ?case by auto
next
  case (Cons c cs)
  obtain cls rq q args kw where c: "c = (cls, rq, q, args, kw)" by (cases c)
  let ?wq = "w\<lparr>request := q\<rparr>"
  obtain r wa where a: "action_without_assignment rc (plain_function nm body) cls rq args kw ?wq
      = (r, wa)" by fastforce
  have fr: "vself wa = vself w" "vaction wa = vaction w"
    using without_assignment_frame [OF a] by simp_all
  have o: "v_original_fields (vself ?wq) = Some ofs" using Cons.prems by simp
  have swap: "w\<lparr>vself := (vself w)\<lparr>v_fields := fl\<rparr>, request := q\<rparr> =
              ?wq\<lparr>vself := (vself ?wq)\<lparr>v_fields := fl\<rparr>\<rparr>"
    by (cases w) simp
  have step: "action rc (plain_function nm body) cls rq args kw
                (w\<lparr>vself := (vself w)\<lparr>v_fields := fl\<rparr>, request := q\<rparr>) =
              (r, wa\<lparr>vself := (vself wa)\<lparr>v_fields := next_fields (vself w) cls fl\<rparr>\<rparr>)"
    unfolding swap using action_simulates [OF o, of rc nm body cls rq args kw fl] a fr by simp
  have "v_original_fields (vself wa) = Some ofs" using fr Cons.prems by simp
  from Cons.IH [OF this, of "next_fields (vself w) cls fl"] obtain fl' where
    ih: "run_calls (action rc (plain_function nm body)) cs
           (wa\<lparr>vself := (vself wa)\<lparr>v_fields := next_fields (vself w) cls fl\<rparr>\<rparr>) =
         (case run_calls (action_without_assignment rc (plain_function nm body)) cs wa of
            (rs, w1) \<Rightarrow> (rs, w1\<lparr>vself := (vself wa)\<lparr>v_fields := fl'\<rparr>\<rparr>))" by blast
  note ih' = ih [unfolded fr]
  note step' = step [unfolded fr]
  show ?case
    by (rule exI [of _ fl']) (simp add: c step' ih' a split: prod.splits)
qed

lemma decorated_attrs:
  "vself (decorated fa mfv skip w) =
     \<lparr> v_fields = (case fa of None \<Rightarrow> [] | Some fs \<Rightarrow> fs),
       v_manager_field_validators = mfv, v_skip_required = skip,
       v_original_fields = Some (case fa of None \<Rightarrow> [] | Some fs \<Rightarrow> fs) \<rparr>"
  "vaction (decorated fa mfv skip w) =
     \<lparr> a_fields = (case fa of None \<Rightarrow> [] | Some fs \<Rightarrow> fs),
       a_original_fields = (case fa of None \<Rightarrow> [] | Some fs \<Rightarrow> fs),
       a_manager_field_validators = mfv \<rparr>"
  "trace (decorated fa mfv skip w) = trace w"
  "request (decorated fa mfv skip w) = request w"
  by (simp_all add: decorated_def validate_call_def validate_init_def Let_def)

lemma run_calls_decorated:
  fixes w :: "('q, 'r, 'z) vworld_scheme"
  assumes b: "run_calls (action_without_assignment rc (plain_function nm body)) cs
                (decorated fa mfv skip w) = (rs', w1')"
  shows "\<exists>fl'. run_calls (action rc (plain_function nm body)) cs (decorated fa mfv skip w) =
           (rs', w1'\<lparr>vself := (vself (decorated fa mfv skip w))\<lparr>v_fields := fl'\<rparr>\<rparr>)"
proof -
  let ?w0 = "decorated fa mfv skip w"
  let ?F = "case fa of None \<Rightarrow> [] | Some fs \<Rightarrow> fs"
  have o: "v_original_fields (vself ?w0) = Some ?F" by (simp add: decorated_attrs)
  have same: "?w0\<lparr>vself := (vself ?w0)\<lparr>v_fields := v_fields (vself ?w0)\<rparr>\<rparr> = ?w0" by simp
  from run_calls_simulates [OF o, of rc nm body cs "v_fields (vself ?w0)"] show ?thesis
    unfolding same using b by auto
qed


lemma without_assignment_trace:
  "trace (snd (action_without_assignment rc (plain_function nm body) cls RequestRef args kw w)) =
     trace w @
     (if v_manager_field_validators (vself w) then
        (case cls_manager cls of
           None \<Rightarrow> []
         | Some m \<Rightarrow>
             RequestValidate (a_original_fields (vaction w) @ field_validators m)
                 (v_skip_required (vself w))
             # (if fst (rc_validate rc (a_original_fields (vaction w) @ field_validators m)
                          (v_skip_required (vself w)) (request w)) = None
                then [FunctionCalled nm (cls_ref cls) RequestRef args kw] else []))
      else
        RequestValidate (a_original_fields (vaction w)) (v_skip_required (vself w))
        # (if fst (rc_validate rc (a_original_fields (vaction w)) (v_skip_required (vself w))
                     (request w)) = None
           then [FunctionCalled nm (cls_ref cls) RequestRef args kw] else []))"
  by (auto simp: action_without_assignment_def request_validate_def plain_function_def Let_def
           split: option.splits prod.splits)

text \<open>
  C6. Every call of an action wrapped by \<^verbatim>\<open>validate(fields, manager_field_validators,
  skip_required)\<close>, after any earlier calls of the same wrapper, invokes
  \<^verbatim>\<open>request.validate\<close> once: without \<^verbatim>\<open>manager_field_validators\<close>, with exactly
  the field list of decoration time and the given \<^verbatim>\<open>skip_required\<close>; with it, with
  that list followed by the field validators of the manager of the calling class, read
  at the call, and the same \<^verbatim>\<open>skip_required\<close>. The function runs after that, and
  only when validation raised nothing.
\<close>

theorem validate_call_arguments:
  fixes w :: "('q, 'r, 'z) vworld_scheme"
  shows "(case run_calls (action rc (plain_function nm body)) cs (decorated fa mfv skip w) of
      (rs, w1) \<Rightarrow>
        trace (snd (action rc (plain_function nm body) cls RequestRef args kw
                      (w1\<lparr>request := q\<rparr>))) =
          trace w1 @
          (if mfv then
             (case cls_manager cls of
                None \<Rightarrow> []
              | Some m \<Rightarrow>
                  RequestValidate
                      ((case fa of None \<Rightarrow> [] | Some fs \<Rightarrow> fs) @ field_validators m) skip
                  # (if fst (rc_validate rc
                               ((case fa of None \<Rightarrow> [] | Some fs \<Rightarrow> fs) @ field_validators m)
                               skip q) = None
                     then [FunctionCalled nm (cls_ref cls) RequestRef args kw] else []))
           else
             RequestValidate (case fa of None \<Rightarrow> [] | Some fs \<Rightarrow> fs) skip
             # (if fst (rc_validate rc (case fa of None \<Rightarrow> [] | Some fs \<Rightarrow> fs) skip q) = None
                then [FunctionCalled nm (cls_ref cls) RequestRef args kw] else [])))"
proof -
  let ?w0 = "decorated fa mfv skip w"
  let ?F = "case fa of None \<Rightarrow> [] | Some fs \<Rightarrow> fs"
  obtain rs' w1' where b:
    "run_calls (action_without_assignment rc (plain_function nm body)) cs ?w0 = (rs', w1')"
    by fastforce
  note fr = run_calls_without_frame [OF b]
  from run_calls_decorated [OF b] obtain fl' where a:
    "run_calls (action rc (plain_function nm body)) cs ?w0 =
       (rs', w1'\<lparr>vself := (vself ?w0)\<lparr>v_fields := fl'\<rparr>\<rparr>)" by blast
  let ?wq = "w1'\<lparr>request := q\<rparr>"
  have attrs: "vself ?wq = vself ?w0" "vaction ?wq = vaction ?w0" using fr by simp_all
  have o: "v_original_fields (vself ?wq) = Some ?F" by (simp add: attrs decorated_attrs)
  have swap: "w1'\<lparr>vself := (vself ?w0)\<lparr>v_fields := fl'\<rparr>, request := q\<rparr> =
              ?wq\<lparr>vself := (vself ?wq)\<lparr>v_fields := fl'\<rparr>\<rparr>"
    using fr by (cases w1') simp
  have "trace (snd (action rc (plain_function nm body) cls RequestRef args kw
                 (w1'\<lparr>vself := (vself ?w0)\<lparr>v_fields := fl'\<rparr>, request := q\<rparr>))) =
        trace (snd (action_without_assignment rc (plain_function nm body) cls RequestRef args kw ?wq))"
    unfolding swap action_simulates [OF o] by (simp split: prod.splits)
  also note without_assignment_trace
  finally show ?thesis
    by (simp add: a fr decorated_attrs cong: option.case_cong if_cong)
qed


text \<open>
  C7. When \<^verbatim>\<open>request.validate\<close> raises in a call of an action wrapped by
  \<^verbatim>\<open>validate\<close>, the call raises that same exception, the only call the wrapper
  made is the one to \<^verbatim>\<open>request.validate\<close>, and the outcome does not depend on the
  wrapped function, which is never invoked. When validation raises nothing, the call
  is the call of the wrapped function on the request as validation left it.
\<close>

theorem validation_error_short_circuits:
  fixes w :: "('q, 'r, 'z) vworld_scheme"
  assumes orig: "v_original_fields (vself w) = Some ofs"
    and mgr: "v_manager_field_validators (vself w) \<longrightarrow> cls_manager cls = Some m"
    and flds: "flds = (if v_manager_field_validators (vself w)
                       then a_original_fields (vaction w) @ field_validators m
                       else a_original_fields (vaction w))"
  shows "(fst (rc_validate rc flds (v_skip_required (vself w)) (request w)) = Some e \<longrightarrow>
            fst (action rc f cls RequestRef args kw w) = Inl e
            \<and> trace (snd (action rc f cls RequestRef args kw w))
                = trace w @ [RequestValidate flds (v_skip_required (vself w))]
            \<and> action rc f cls RequestRef args kw w = action rc g cls RequestRef args kw w)
       \<and> (fst (rc_validate rc flds (v_skip_required (vself w)) (request w)) = None \<longrightarrow>
            (\<exists>w2. action rc f cls RequestRef args kw w = fn_call f cls RequestRef args kw w2
                 \<and> trace w2 = trace w @ [RequestValidate flds (v_skip_required (vself w))]
                 \<and> request w2
                     = snd (rc_validate rc flds (v_skip_required (vself w)) (request w))))"
proof (cases "v_manager_field_validators (vself w)")
  case True
  with mgr have m: "cls_manager cls = Some m" by simp
  from True flds have f: "flds = a_original_fields (vaction w) @ field_validators m" by simp
  obtain x q where v: "rc_validate rc flds (v_skip_required (vself w)) (request w) = (x, q)"
    by (cases "rc_validate rc flds (v_skip_required (vself w)) (request w)")
  show ?thesis
    using True m orig v
    by (cases x) (auto simp: action_def request_validate_def Let_def f)
next
  case False
  with flds have f: "flds = a_original_fields (vaction w)" by simp
  obtain x q where v: "rc_validate rc flds (v_skip_required (vself w)) (request w) = (x, q)"
    by (cases "rc_validate rc flds (v_skip_required (vself w)) (request w)")
  show ?thesis
    using False v
    by (cases x) (auto simp: action_def request_validate_def Let_def f)
qed

theorem validation_error_short_circuits_witness:
  "fst (action
         \<lparr> rc_validate = (\<lambda>fl skip q. (Some (ValidationException ''a''), q)),
           rc_translate = (\<lambda>fl q. (None, q)) \<rparr>
         (plain_function ''create'' (\<lambda>cls rq q a kw. (Inr ''made'', q)))
         \<lparr> cls_ref = UserClass ''B'',
           cls_manager = Some \<lparr> mgr_fields = [], field_validators = [''c''],
                                pagination_pk_query_arg = ''pk'',
                                pagination_count_query_arg = ''count'' \<rparr>,
           preprocessors = [], postprocessors = [] \<rparr>
         RequestRef [] []
         (decorated (Some [''a'']) True True
            \<lparr> request = (), trace = [],
              vself = validate_init None False False,
              vaction = \<lparr> a_fields = [], a_original_fields = [],
                          a_manager_field_validators = False \<rparr> \<rparr>))
     = (Inl (ValidationException ''a'') :: pyerror + string)
   \<and> trace (snd (action
         \<lparr> rc_validate = (\<lambda>fl skip q. (Some (ValidationException ''a''), q)),
           rc_translate = (\<lambda>fl q. (None, q)) \<rparr>
         (plain_function ''create'' (\<lambda>cls rq q a kw. (Inr ''made'', q)))
         \<lparr> cls_ref = UserClass ''B'',
           cls_manager = Some \<lparr> mgr_fields = [], field_validators = [''c''],
                                pagination_pk_query_arg = ''pk'',
                                pagination_count_query_arg = ''count'' \<rparr>,
           preprocessors = [], postprocessors = [] \<rparr>
         RequestRef [] []
         (decorated (Some [''a'']) True True
            \<lparr> request = (), trace = [],
              vself = validate_init None False False,
              vaction = \<lparr> a_fields = [], a_original_fields = [],
                          a_manager_field_validators = False \<rparr> \<rparr>)))
     = [RequestValidate [''a'', ''c''] True :: string event]"
proof -
  let ?rc = "\<lparr> rc_validate = (\<lambda>fl skip (q :: unit). (Some (ValidationException ''a''), q)),
           rc_translate = (\<lambda>fl q. (None, q)) \<rparr>"
  let ?m = "\<lparr> mgr_fields = [], field_validators = [''c''],
              pagination_pk_query_arg = ''pk'', pagination_count_query_arg = ''count'' \<rparr>"
  let ?cls = "\<lparr> cls_ref = UserClass ''B'', cls_manager = Some ?m,
           preprocessors = [], postprocessors = [] \<rparr> :: (unit, string) resource_class"
  let ?w = "decorated (Some [''a'']) True True
            \<lparr> request = (), trace = ([] :: string event list),
              vself = validate_init None False False,
              vaction = \<lparr> a_fields = [], a_original_fields = [],
                          a_manager_field_validators = False \<rparr> \<rparr>"
  have o: "v_original_fields (vself ?w) = Some [''a'']" by (simp add: decorated_attrs)
  have m: "v_manager_field_validators (vself ?w) \<longrightarrow> cls_manager ?cls = Some ?m"
    by simp
  have f: "[''a'', ''c''] = (if v_manager_field_validators (vself ?w)
                       then a_original_fields (vaction ?w) @ field_validators ?m
                       else a_original_fields (vaction ?w))"
    by (simp add: decorated_attrs)
  from validation_error_short_circuits [OF o m f, of ?rc "ValidationException ''a''"]
  show ?thesis by (simp add: decorated_attrs)
qed


text \<open>
  C9. The assignment to \<^verbatim>\<open>self.fields\<close> inside \<^verbatim>\<open>action\<close> is not observable
  through the wrapper: for every sequence of calls, through any classes and managers,
  the wrapper and the variant without the assignment return the same results, make the
  same calls with the same arguments (so every call validates against the fields of
  decoration time plus the field validators of the manager of the class of that call),
  leave the request in the same state, and end in worlds that differ only in the
  attributes of the decorator instance; \<^verbatim>\<open>action.fields\<close> and
  \<^verbatim>\<open>action.original_fields\<close> keep the value of decoration time.
\<close>

theorem self_fields_assignment_unobservable:
  fixes w :: "('q, 'r, 'z) vworld_scheme"
  shows "(case run_calls (action rc (plain_function nm body)) cs (decorated fa mfv skip w) of
      (rs, w1) \<Rightarrow>
        (case run_calls (action_without_assignment rc (plain_function nm body)) cs
                (decorated fa mfv skip w) of
           (rs', w1') \<Rightarrow>
             rs = rs' \<and> trace w1 = trace w1' \<and> request w1 = request w1'
             \<and> w1\<lparr>vself := vself (decorated fa mfv skip w)\<rparr> = w1'
             \<and> vaction w1 = vaction (decorated fa mfv skip w)
             \<and> a_fields (vaction w1) = (case fa of None \<Rightarrow> [] | Some fs \<Rightarrow> fs)
             \<and> a_original_fields (vaction w1) = (case fa of None \<Rightarrow> [] | Some fs \<Rightarrow> fs)))"
proof -
  let ?w0 = "decorated fa mfv skip w"
  obtain rs' w1' where b:
    "run_calls (action_without_assignment rc (plain_function nm body)) cs ?w0 = (rs', w1')"
    by fastforce
  note fr = run_calls_without_frame [OF b]
  from run_calls_decorated [OF b] obtain fl' where
    "run_calls (action rc (plain_function nm body)) cs ?w0 =
       (rs', w1'\<lparr>vself := (vself ?w0)\<lparr>v_fields := fl'\<rparr>\<rparr>)" by blast
  with b fr show ?thesis by (simp add: decorated_attrs)
qed


section \<open>Routes across decorator layers\<close>

lemma wraps_routes: "routes_attr (wraps f) = routes_address f"
  by (cases f) (simp_all add: no_attrs_def)

lemma apply_decorator_routes:
  "routes (apply_decorator d s) = routes s @ route_entries [d]"
proof (cases s)
  case (Pair f h)
  show ?thesis
  proof (cases d)
    case (Apimethod route endpoint options)
    show ?thesis
    proof (cases "routes_address f")
      case None
      with Pair Apimethod show ?thesis
        by (simp add: routes_def apimethod_call_def apimethod_init_def apiclassmethod_init_def
              getattr_routes_def alloc_def Let_def)
    next
      case (Some a)
      with Pair Apimethod show ?thesis
        by (simp add: routes_def apimethod_call_def apimethod_init_def apiclassmethod_init_def
              getattr_routes_def Let_def)
    qed
  next
    case (Validate fa mfv skip)
    with Pair show ?thesis
      by (simp add: routes_def validate_decorate_def validate_call_def Let_def wraps_routes
            split: option.splits)
  next
    case (Translate fa mfv)
    with Pair show ?thesis
      by (simp add: routes_def translate_decorate_def wraps_routes split: option.splits)
  qed
qed

lemma route_entries_Cons: "route_entries (d # ds) = route_entries [d] @ route_entries ds"
  by (cases d) simp_all

text \<open>
  C4. For every stack of \<^verbatim>\<open>validate\<close>, \<^verbatim>\<open>translate\<close> and \<^verbatim>\<open>apimethod\<close>
  decorators applied to one function, in any order, the routes of the final object
  are the routes the function carried before, followed by one entry
  \<^verbatim>\<open>(route, endpoint, options)\<close> for each \<^verbatim>\<open>apimethod\<close> of the stack, innermost
  first: no entry is lost and none is duplicated.
\<close>

theorem routes_accumulate:
  "routes (decorate ds s) = routes s @ route_entries ds"
proof (induction ds arbitrary: s)
  case Nil
  show ?case by simp
next
  case (Cons d ds)
  have "routes (decorate (d # ds) s) = routes (apply_decorator d s) @ route_entries ds"
    using Cons.IH by simp
  also have "\<dots> = routes s @ route_entries [d] @ route_entries ds"
    by (simp add: apply_decorator_routes)
  finally show ?case by (simp add: route_entries_Cons [of d ds])
qed


section \<open>Binding an action to the class of the access\<close>




lemma base_and_subclass_table:
  "base_and_subclass =
     Inr [(UserClass ''B'', \<lparr> c_mro = [UserClass ''B'', UserClass ''A''], c_dict = [] \<rparr>),
          (UserClass ''A'', \<lparr> c_mro = [UserClass ''A''],
                              c_dict = [(''action'', received_args)] \<rparr>)]"
  by (simp add: base_and_subclass_def define_class_def mro_of_def c3_merge.simps drop_head_def)




text \<open>
  C10. The function an access to an action returns, through a class or through an
  instance, declares positional parameters only: a call with any keyword argument
  raises \<^verbatim>\<open>TypeError\<close> and the underlying method is not invoked, although the
  method itself (\<^verbatim>\<open>wrapped\<close>) takes keyword arguments and hands them on.
\<close>

theorem bound_action_rejects_keywords:
  fixes w :: "('q, 'r, 'z) world_scheme"
  assumes kw: "kw \<noteq> []"
  shows "(\<exists>msg. newfunc method klass args kw = Inl (TypeError msg))
       \<and> (\<forall>f. class_attr tbl b nm = Inr f \<longrightarrow>
            (\<exists>g. class_getattr tbl b nm = Inr g \<and> (\<exists>msg. g args kw = Inl (TypeError msg)))
          \<and> (\<exists>g. instance_getattr tbl b nm = Inr g \<and> (\<exists>msg. g args kw = Inl (TypeError msg))))
       \<and> (''cls'' \<notin> fst ` set kw \<and> ''request'' \<notin> fst ` set kw \<and> classes k = Some cls \<longrightarrow>
            wrapped_method classes fn (ClassRef k # rq # rest) kw w = wrapped fn cls rq rest kw w)"
proof -
  obtain k0 v0 kw0 where "kw = (k0, v0) # kw0" using kw by (cases kw) auto
  then show ?thesis
    by (auto simp: newfunc_def class_getattr_def instance_getattr_def apiclassmethod_get_def
          wrapped_method_def bind_cls_request_def)
qed

theorem bound_action_rejects_keywords_witness:
  "(case base_and_subclass of
      Inl e \<Rightarrow> None
    | Inr tbl \<Rightarrow>
        (case class_getattr tbl (UserClass ''B'') ''action'' of
           Inl e \<Rightarrow> None
         | Inr g \<Rightarrow> Some (g [RequestRef] [(''page'', StrVal ''2'')])))
   = Some (Inl (TypeError ''newfunc() got an unexpected keyword argument page''))"
proof -
  let ?tbl = "[(UserClass ''B'', \<lparr> c_mro = [UserClass ''B'', UserClass ''A''], c_dict = [] \<rparr>),
          (UserClass ''A'', \<lparr> c_mro = [UserClass ''A''],
                              c_dict = [(''action'', received_args)] \<rparr>)]"
  have kw: "[(''page'', StrVal ''2'')] \<noteq> []" by simp
  have attr: "class_attr ?tbl (UserClass ''B'') ''action'' = Inr received_args"
    by (simp add: class_attr_def mro_of_def)
  from bound_action_rejects_keywords [OF kw, of _ _ "[RequestRef]" ?tbl "UserClass ''B''" "''action''"]
    attr
  obtain g msg where g: "class_getattr ?tbl (UserClass ''B'') ''action'' = Inr g"
    "g [RequestRef] [(''page'', StrVal ''2'')] = Inl (TypeError msg)"
    by blast
  have "g = apiclassmethod_get received_args NoneVal (Some (UserClass ''B''))"
    using g(1) attr by (simp add: class_getattr_def)
  then show ?thesis
    using g by (simp add: base_and_subclass_table apiclassmethod_get_def newfunc_def)
qed


section \<open>Importing the mixins\<close>

text \<open>
  C1. No class of \<^verbatim>\<open>restmixins.py\<close> comes to exist, so no \<^verbatim>\<open>links\<close> of
  \<^verbatim>\<open>CRUDL\<close> or of any composition of the mixins can be read. Importing the module
  raises at its import of \<^verbatim>\<open>classproperty\<close>, a name \<^verbatim>\<open>ripozo/decorators.py\<close>
  does not bind; and its class statements, run on their own over any classes the other
  imports bring, raise in the first of them: the body of \<^verbatim>\<open>class Create\<close> calls
  \<^verbatim>\<open>translate\<close> with the keyword \<^verbatim>\<open>validate\<close>.
\<close>

theorem restmixins_import_raises:
  "restmixins tbl h = Inl (Raised ''ImportError: cannot import name classproperty'')
   \<and> class_statements restmixins_classes tbl h =
       Inl (case mro_of tbl ResourceBase of
              None \<Rightarrow> Raised ''NameError''
            | Some mro \<Rightarrow> TypeError ''__init__() got an unexpected keyword argument validate'')"
  by (simp add: restmixins_def import_from_decorators_def decorators_names_def
        restmixins_classes_def Create_create_def declare_action_def translate_new_def
      split: option.splits)


section \<open>The action declarations of Create and Update\<close>

lemma Retrieve_retrieve_declared:
  "\<exists>d h1. Retrieve_retrieve h = Inr (ApiClassMethod d, h1)
     \<and> cells h1 (acm_routes d) = [([], None, [(''methods'', ListVal [StrVal ''GET''])])]"
  by (simp add: Retrieve_retrieve_def declare_action_def translate_new_def translate_init_def
        translate_decorate_def apimethod_call_def apimethod_init_def apiclassmethod_init_def
        getattr_routes_def alloc_def no_attrs_def Let_def)

lemma translate_action_trace:
  "trace (snd (translate_action rc self (plain_function nm body) cls RequestRef args kw w)) =
     trace w @
     (if t_manager_field_validators self then
        (case cls_manager cls of
           None \<Rightarrow> []
         | Some m \<Rightarrow>
             RequestTranslate (t_fields self @ field_validators m)
             # (if fst (rc_translate rc (t_fields self @ field_validators m) (request w)) = None
                then [FunctionCalled nm (cls_ref cls) RequestRef args kw] else []))
      else
        RequestTranslate (t_fields self)
        # (if fst (rc_translate rc (t_fields self) (request w)) = None
           then [FunctionCalled nm (cls_ref cls) RequestRef args kw] else []))"
  by (auto simp: translate_action_def request_translate_def plain_function_def Let_def
           split: option.splits prod.splits)

text \<open>
  C2. The body of \<^verbatim>\<open>class Update\<close> evaluates
  \<^verbatim>\<open>translate(manager_field_validators=True, skip_required=True, validate=True)\<close>;
  \<^verbatim>\<open>translate.__init__\<close> has no parameter \<^verbatim>\<open>skip_required\<close>, so the declaration
  of the update action raises \<^verbatim>\<open>TypeError\<close> and no action exists that could
  validate with \<^verbatim>\<open>skip_required=True\<close>.
\<close>

theorem Update_update_declaration_raises:
  "Update_update h =
     Inl (TypeError ''__init__() got an unexpected keyword argument skip_required'')"
  by (simp add: Update_update_def declare_action_def translate_new_def)

text \<open>
  C3. The body of \<^verbatim>\<open>class Create\<close> evaluates
  \<^verbatim>\<open>translate(manager_field_validators=True, validate=True)\<close>;
  \<^verbatim>\<open>translate.__init__\<close> has no parameter \<^verbatim>\<open>validate\<close>, so the declaration of
  the create action raises \<^verbatim>\<open>TypeError\<close> and no create action exists.
\<close>

theorem Create_create_declaration_raises:
  "Create_create h =
     Inl (TypeError ''__init__() got an unexpected keyword argument validate'')"
  by (simp add: Create_create_def declare_action_def translate_new_def)


end
